theory Spec2Isabelle
  imports Complex_Main "HOL-Library.Word"
begin

unbundle bit_operations_syntax

section \<open>Values of the native interface\<close>

text \<open>
  The four tutorials are C++ programs against the Vulkan C interface. Pointers and
  dispatchable handles (\<open>VkInstance\<close>, \<open>VkPhysicalDevice\<close>, \<open>VkDevice\<close>) are
  64-bit values, with 0 for \<open>NULL\<close>. \<open>uint32_t\<close> and \<open>size_t\<close> are words, so that
  the arithmetic of the allocation sizes wraps as it does in C.
\<close>

type_synonym addr = "64 word"
type_synonym uint32_t = "32 word"
type_synonym size_t = "64 word"

text \<open>The status codes that the header comments of the sources name.\<close>

datatype VkResult =
    VK_SUCCESS
  | VK_ERROR_OUT_OF_HOST_MEMORY
  | VK_ERROR_OUT_OF_DEVICE_MEMORY
  | VK_ERROR_INITIALIZATION_FAILED
  | VK_ERROR_LAYER_NOT_PRESENT
  | VK_ERROR_EXTENSION_NOT_PRESENT
  | VK_ERROR_INCOMPATIBLE_DRIVER

text \<open>
  The structure types the sources assign. \<open>VK_STRUCTURE_TYPE_APPLICATION_INFO\<close> is the
  enumerator 0, the value a structure initialised with \<open>= {}\<close> starts with.
\<close>

datatype VkStructureType =
    VK_STRUCTURE_TYPE_APPLICATION_INFO
  | VK_STRUCTURE_TYPE_INSTANCE_CREATE_INFO
  | VK_STRUCTURE_TYPE_DEVICE_QUEUE_CREATE_INFO
  | VK_STRUCTURE_TYPE_DEVICE_CREATE_INFO

text \<open>
  The descriptor structures. They share their leading members (\<open>sType\<close>, \<open>pNext\<close>,
  then \<open>flags\<close>, then the layer and extension members), which the records share by
  extension so that every member keeps the name it has in C.
\<close>

record VkBaseStructure =
  sType :: VkStructureType
  pNext :: addr

record VkApplicationInfo = VkBaseStructure +
  pApplicationName :: "string option"
  applicationVersion :: uint32_t
  pEngineName :: "string option"
  engineVersion :: uint32_t
  apiVersion :: uint32_t

record VkFlaggedStructure = VkBaseStructure +
  flags :: uint32_t

record VkDeviceQueueCreateInfo = VkFlaggedStructure +
  queueFamilyIndex :: uint32_t
  queueCount :: uint32_t
  pQueuePriorities :: "real list"

record VkEnablingStructure = VkFlaggedStructure +
  enabledLayerCount :: uint32_t
  ppEnabledLayerNames :: addr
  enabledExtensionCount :: uint32_t
  ppEnabledExtensionNames :: addr

record VkInstanceCreateInfo = VkEnablingStructure +
  pApplicationInfo :: "VkApplicationInfo option"

record VkDeviceCreateInfo = VkEnablingStructure +
  queueCreateInfoCount :: uint32_t
  pQueueCreateInfos :: "VkDeviceQueueCreateInfo list"
  pEnabledFeatures :: addr

record VkExtent3D =
  width :: uint32_t
  height :: uint32_t
  depth :: uint32_t

record VkQueueFamilyProperties =
  queueFlags :: uint32_t
  qfQueueCount :: uint32_t
  timestampValidBits :: uint32_t
  minImageTransferGranularity :: VkExtent3D

record VkPhysicalDeviceProperties =
  devApiVersion :: uint32_t
  driverVersion :: uint32_t
  deviceName :: string
  deviceType :: uint32_t

text \<open>The capability bits of \<open>queueFlags\<close> that tutorial 2 tests.\<close>

definition VK_QUEUE_GRAPHICS_BIT :: uint32_t where
  "VK_QUEUE_GRAPHICS_BIT = 0x1"

definition VK_QUEUE_COMPUTE_BIT :: uint32_t where
  "VK_QUEUE_COMPUTE_BIT = 0x2"

definition VK_QUEUE_TRANSFER_BIT :: uint32_t where
  "VK_QUEUE_TRANSFER_BIT = 0x4"

definition VK_QUEUE_SPARSE_BINDING_BIT :: uint32_t where
  "VK_QUEUE_SPARSE_BINDING_BIT = 0x8"

text \<open>The values of structures initialised with \<open>= {}\<close>: every member zero.\<close>

definition zero_VkApplicationInfo :: VkApplicationInfo where
  "zero_VkApplicationInfo =
     \<lparr>sType = VK_STRUCTURE_TYPE_APPLICATION_INFO, pNext = 0,
      pApplicationName = None, applicationVersion = 0, pEngineName = None,
      engineVersion = 0, apiVersion = 0\<rparr>"

definition zero_VkInstanceCreateInfo :: VkInstanceCreateInfo where
  "zero_VkInstanceCreateInfo =
     \<lparr>sType = VK_STRUCTURE_TYPE_APPLICATION_INFO, pNext = 0, flags = 0,
      enabledLayerCount = 0, ppEnabledLayerNames = 0,
      enabledExtensionCount = 0, ppEnabledExtensionNames = 0,
      pApplicationInfo = None\<rparr>"

definition zero_VkDeviceQueueCreateInfo :: VkDeviceQueueCreateInfo where
  "zero_VkDeviceQueueCreateInfo =
     \<lparr>sType = VK_STRUCTURE_TYPE_APPLICATION_INFO, pNext = 0, flags = 0,
      queueFamilyIndex = 0, queueCount = 0, pQueuePriorities = []\<rparr>"

definition zero_VkDeviceCreateInfo :: VkDeviceCreateInfo where
  "zero_VkDeviceCreateInfo =
     \<lparr>sType = VK_STRUCTURE_TYPE_APPLICATION_INFO, pNext = 0, flags = 0,
      enabledLayerCount = 0, ppEnabledLayerNames = 0,
      enabledExtensionCount = 0, ppEnabledExtensionNames = 0,
      queueCreateInfoCount = 0, pQueueCreateInfos = [], pEnabledFeatures = 0\<rparr>"

section \<open>Decoding the API version (tutorial 1)\<close>

text \<open>
  \<^verbatim>\<open>#define VK_API_MAJOR_VERSION(x) ((x>>22)&0x3FF)\<close>,
  \<^verbatim>\<open>#define VK_API_MINOR_VERSION(x) ((x>>12)&0x3FF)\<close>,
  \<^verbatim>\<open>#define VK_API_PATCH_VERSION(x) (x&0xFFF)\<close>, applied to the \<open>uint32_t\<close>
  member \<open>apiVersion\<close>.
\<close>

definition VK_API_MAJOR_VERSION :: "uint32_t \<Rightarrow> uint32_t" where
  "VK_API_MAJOR_VERSION x = (drop_bit 22 x) AND 0x3FF"

definition VK_API_MINOR_VERSION :: "uint32_t \<Rightarrow> uint32_t" where
  "VK_API_MINOR_VERSION x = (drop_bit 12 x) AND 0x3FF"

definition VK_API_PATCH_VERSION :: "uint32_t \<Rightarrow> uint32_t" where
  "VK_API_PATCH_VERSION x = x AND 0xFFF"

text \<open>
  Modelled from the spec: the packing macro of the native header is not part of the
  sources; the specification gives the packed value as
  \<open>(major<<22)|(minor<<12)|patch\<close>, a 32-bit value.
\<close>

definition packed_version :: "uint32_t \<Rightarrow> uint32_t \<Rightarrow> uint32_t \<Rightarrow> uint32_t" where
  "packed_version major minor patch = push_bit 22 major OR push_bit 12 minor OR patch"

section \<open>The native layer and the observable behaviour\<close>

text \<open>
  A heap array as the program sees it: the pointer and the elements that were written
  behind it. \<open>NULL\<close> is the buffer with base 0. Reading through a null pointer stops
  the program, and is a fault of the model. Reading an element of an allocated array
  that was not written does not stop the compiled program: it reads what the allocator
  left in the memory, which \<open>index\<close> takes as a parameter (the block and the position
  give the value).
\<close>

record 'a buffer =
  base :: addr
  cells :: "'a list"

datatype fault = NullDereference

definition null_devices :: "addr buffer" where
  "null_devices = \<lparr>base = 0, cells = []\<rparr>"

definition null_families :: "VkQueueFamilyProperties buffer" where
  "null_families = \<lparr>base = 0, cells = []\<rparr>"

definition index :: "(addr \<Rightarrow> nat \<Rightarrow> 'a) \<Rightarrow> 'a buffer \<Rightarrow> nat \<Rightarrow> fault + 'a" where
  "index unwritten b i =
     (if base b = 0 then Inl NullDereference
      else if i < length (cells b) then Inr (cells b ! i)
      else Inr (unwritten (base b) i))"

text \<open>
  What a run does to the outside: the calls into the native layer and into the C
  library, in order, with their arguments. \<open>Printf\<close> keeps the format string and the
  arguments as the source passes them.
\<close>

datatype arg = Res VkResult | U32 uint32_t | Str string | Errno

datatype event =
    Printf string "arg list"
  | VkCreateInstance VkInstanceCreateInfo
  | VkEnumeratePhysicalDevices addr uint32_t addr
  | VkGetPhysicalDeviceProperties addr
  | VkGetPhysicalDeviceQueueFamilyProperties addr uint32_t addr
  | VkCreateDevice addr VkDeviceCreateInfo
  | VkDestroyDevice addr
  | VkDestroyInstance addr
  | Malloc size_t addr
  | Free addr

record world =
  trace :: "event list"
  mallocs :: nat

definition init_world :: world where
  "init_world = \<lparr>trace = [], mallocs = 0\<rparr>"

text \<open>
  The native layer is outside the sources, so it is a parameter: what each native call
  answers, what the \<open>n\<close>-th call of \<open>malloc\<close> returns for a size, and the constants of
  the native header that the sources use (\<open>VK_API_VERSION\<close> and the two \<open>sizeof\<close>).
  The count-only call of an enumeration answers a count; the filling call answers the
  elements the driver has, of which it writes as many as the caller's count allows, and
  sets the count to the number written. The last two members give what the memory of
  an allocated array holds where nothing was written.
\<close>

record native =
  VK_API_VERSION :: uint32_t
  sizeof_VkPhysicalDevice :: size_t
  sizeof_VkQueueFamilyProperties :: size_t
  vkCreateInstance_ret :: "VkResult \<times> addr"
  vkEnumeratePhysicalDevices_count :: "VkResult \<times> uint32_t"
  vkEnumeratePhysicalDevices_fill :: "VkResult \<times> addr list"
  vkGetPhysicalDeviceProperties_ret :: "addr \<Rightarrow> VkPhysicalDeviceProperties"
  queueFamilyCount :: "addr \<Rightarrow> uint32_t"
  queueFamilies :: "addr \<Rightarrow> VkQueueFamilyProperties list"
  vkCreateDevice_ret :: "VkResult \<times> addr"
  malloc_ret :: "nat \<Rightarrow> size_t \<Rightarrow> addr"
  unwritten_devices :: "addr \<Rightarrow> nat \<Rightarrow> addr"
  unwritten_families :: "addr \<Rightarrow> nat \<Rightarrow> VkQueueFamilyProperties"

definition emit :: "event \<Rightarrow> world \<Rightarrow> world" where
  "emit e w = w\<lparr>trace := trace w @ [e]\<rparr>"

definition printf :: "string \<Rightarrow> arg list \<Rightarrow> world \<Rightarrow> world" where
  "printf fmt args w = emit (Printf fmt args) w"

definition malloc :: "native \<Rightarrow> size_t \<Rightarrow> world \<Rightarrow> addr \<times> world" where
  "malloc env n w =
     (let p = malloc_ret env (mallocs w) n
      in (p, (emit (Malloc n p) w)\<lparr>mallocs := Suc (mallocs w)\<rparr>))"

definition free :: "addr \<Rightarrow> world \<Rightarrow> world" where
  "free p w = emit (Free p) w"

definition tab :: string where
  "tab = [CHR 0x09]"

section \<open>Instance creation\<close>

text \<open>
  \<open>createInstance\<close> is the same function in tutorials 1, 2 and 3, apart from the
  global \<open>g_appName\<close>; tutorial 0 has the same statements inline in \<open>main\<close>. The last
  assignment of the source writes \<open>enabledExtensionCount\<close> a second time (with
  \<open>NULL\<close>, that is 0); \<open>ppEnabledExtensionNames\<close> keeps the null of \<open>= {}\<close>.
\<close>

definition instance_descriptor :: "native \<Rightarrow> string \<Rightarrow> VkInstanceCreateInfo" where
  "instance_descriptor env g_appName =
     (let appInfo = zero_VkApplicationInfo;
          instInfo = zero_VkInstanceCreateInfo;
          appInfo = appInfo\<lparr>sType := VK_STRUCTURE_TYPE_APPLICATION_INFO\<rparr>;
          appInfo = appInfo\<lparr>pNext := 0\<rparr>;
          appInfo = appInfo\<lparr>pApplicationName := Some g_appName\<rparr>;
          appInfo = appInfo\<lparr>pEngineName := None\<rparr>;
          appInfo = appInfo\<lparr>engineVersion := 1\<rparr>;
          appInfo = appInfo\<lparr>apiVersion := VK_API_VERSION env\<rparr>;
          instInfo = instInfo\<lparr>sType := VK_STRUCTURE_TYPE_INSTANCE_CREATE_INFO\<rparr>;
          instInfo = instInfo\<lparr>pNext := 0\<rparr>;
          instInfo = instInfo\<lparr>flags := 0\<rparr>;
          instInfo = instInfo\<lparr>pApplicationInfo := Some appInfo\<rparr>;
          instInfo = instInfo\<lparr>enabledLayerCount := 0\<rparr>;
          instInfo = instInfo\<lparr>ppEnabledLayerNames := 0\<rparr>;
          instInfo = instInfo\<lparr>enabledExtensionCount := 0\<rparr>;
          instInfo = instInfo\<lparr>enabledExtensionCount := 0\<rparr>
      in instInfo)"

definition vkCreateInstance :: "native \<Rightarrow> VkInstanceCreateInfo \<Rightarrow> world \<Rightarrow> VkResult \<times> addr \<times> world" where
  "vkCreateInstance env instInfo w =
     (fst (vkCreateInstance_ret env), snd (vkCreateInstance_ret env),
      emit (VkCreateInstance instInfo) w)"

definition createInstance :: "native \<Rightarrow> string \<Rightarrow> world \<Rightarrow> VkResult \<times> addr \<times> world" where
  "createInstance env g_appName w =
     (let instInfo = instance_descriptor env g_appName;
          (res, vkInst, w) = vkCreateInstance env instInfo w
      in (res, vkInst, w))"

section \<open>Tutorial 0\<close>

datatype outcome = Exited int | Crashed fault

definition main00 :: "native \<Rightarrow> outcome \<times> world" where
  "main00 env =
     (let instInfo = instance_descriptor env ''vulkan-tut00'';
          (res, vkInst, w) = vkCreateInstance env instInfo init_world
      in if res \<noteq> VK_SUCCESS
         then (Exited (- 1), printf ''Failed to create instance: %d\<newline>'' [Res res] w)
         else
           (let w = printf ''Instance created successfully\<newline>'' [] w;
                w = emit (VkDestroyInstance vkInst) w;
                w = printf ''Instance destroyed\<newline>'' [] w
            in (Exited 0, w)))"

section \<open>Enumerating the physical devices (tutorials 1, 2 and 3)\<close>

text \<open>
  The function has the out-parameters \<open>i_devCount\<close> and \<open>vkPhysDev\<close>; the model takes
  their values at the call and returns their values at the return, after the status.
\<close>

definition createPhysicalDevicesArray ::
  "native \<Rightarrow> addr \<Rightarrow> uint32_t \<Rightarrow> addr buffer \<Rightarrow> world
     \<Rightarrow> VkResult \<times> uint32_t \<times> addr buffer \<times> world" where
  "createPhysicalDevicesArray env vkInst i_devCount vkPhysDev w =
     (let w = emit (VkEnumeratePhysicalDevices vkInst i_devCount 0) w;
          res = fst (vkEnumeratePhysicalDevices_count env);
          i_devCount = snd (vkEnumeratePhysicalDevices_count env)
      in if res \<noteq> VK_SUCCESS
         then (res, i_devCount, vkPhysDev,
               printf ''Failed to query number of physical devices present: %d\<newline>'' [Res res] w)
         else if i_devCount = 0
         then (res, i_devCount, vkPhysDev,
               printf ''Couldn't detect any device present with Vulkan support: %d\<newline>'' [Res res] w)
         else
           (let (p, w) = malloc env (sizeof_VkPhysicalDevice env * ucast i_devCount) w;
                vkPhysDev = \<lparr>base = p, cells = []\<rparr>
            in if base vkPhysDev = 0
               then (VK_ERROR_OUT_OF_HOST_MEMORY, i_devCount, vkPhysDev,
                     printf ''Couldn't allocate memory for the physical device array: %d\<newline>'' [Errno] w)
               else
                 (let w = emit (VkEnumeratePhysicalDevices vkInst i_devCount (base vkPhysDev)) w;
                      res = fst (vkEnumeratePhysicalDevices_fill env);
                      vkPhysDev = vkPhysDev\<lparr>cells :=
                         take (unat i_devCount) (snd (vkEnumeratePhysicalDevices_fill env))\<rparr>;
                      i_devCount = of_nat (length (cells vkPhysDev))
                  in if res \<noteq> VK_SUCCESS
                     then (res, i_devCount, vkPhysDev,
                           printf ''Failed to enumerate physical devices present: %d\<newline>'' [Res res] w)
                     else (res, i_devCount, vkPhysDev, w))))"

section \<open>Tutorial 1\<close>

text \<open>
  The loop of \<open>printPhysicalDevicesProperties\<close>, from the counter \<open>i\<close> on. The
  \<open>memset\<close> before the native call is overwritten by the call.
\<close>

function printPhysicalDevicesProperties_from ::
  "native \<Rightarrow> uint32_t \<Rightarrow> addr buffer \<Rightarrow> uint32_t \<Rightarrow> world \<Rightarrow> fault option \<times> world" where
  "printPhysicalDevicesProperties_from env i_devCount vkPhysDev i w =
     (if i < i_devCount then
        (case index (unwritten_devices env) vkPhysDev (unat i) of
           Inl f \<Rightarrow> (Some f, w)
         | Inr d \<Rightarrow>
             printPhysicalDevicesProperties_from env i_devCount vkPhysDev (i + 1)
               (printf ''\<newline>'' []
               (printf (tab @ ''Device Type: %d\<newline>'')
                  [U32 (deviceType (vkGetPhysicalDeviceProperties_ret env d))]
               (printf (tab @ ''Device Name: %s\<newline>'')
                  [Str (deviceName (vkGetPhysicalDeviceProperties_ret env d))]
               (printf (tab @ ''Driver Version: %d\<newline>'')
                  [U32 (driverVersion (vkGetPhysicalDeviceProperties_ret env d))]
               (printf (tab @ ''API Version: %d.%d.%d\<newline>'')
                  [U32 (VK_API_MAJOR_VERSION (devApiVersion (vkGetPhysicalDeviceProperties_ret env d))),
                   U32 (VK_API_MINOR_VERSION (devApiVersion (vkGetPhysicalDeviceProperties_ret env d))),
                   U32 (VK_API_PATCH_VERSION (devApiVersion (vkGetPhysicalDeviceProperties_ret env d)))]
               (emit (VkGetPhysicalDeviceProperties d) w)))))))
      else (None, w))"
  by pat_completeness auto
termination
proof (relation "measure (\<lambda>(env, i_devCount, vkPhysDev, i, w). unat i_devCount - unat i)", goal_cases)
  case 1
  show ?case by simp
next
  case (2 env i_devCount vkPhysDev i w d)
  have lt: "unat i < unat i_devCount"
    using 2(1) by (simp add: word_less_nat_alt)
  have "unat i_devCount < 2 ^ 32"
    using unsigned_less [of i_devCount, where ?'a = nat] by simp
  with lt have "unat (i + 1) = Suc (unat i)"
    by (simp add: unat_word_ariths)
  with lt show ?case by simp
qed

definition printPhysicalDevicesProperties ::
  "native \<Rightarrow> uint32_t \<Rightarrow> addr buffer \<Rightarrow> world \<Rightarrow> fault option \<times> world" where
  "printPhysicalDevicesProperties env i_devCount vkPhysDev w =
     printPhysicalDevicesProperties_from env i_devCount vkPhysDev 0
       (printf '' %d physical device(s) found: \<newline>'' [U32 i_devCount] w)"

definition main01 :: "native \<Rightarrow> outcome \<times> world" where
  "main01 env =
     (let vkDev = null_devices;
          i_devCount = 0;
          (res, vkInst, w) = createInstance env ''vulkan-tut01'' init_world
      in if res \<noteq> VK_SUCCESS
         then (Exited (- 1), printf ''Failed to create instance: %d\<newline>'' [Res res] w)
         else
           (let (res, i_devCount, vkDev, w) = createPhysicalDevicesArray env vkInst i_devCount vkDev w
            in if res \<noteq> VK_SUCCESS
               then (Exited (- 1), printf ''Failed to create instance: %d\<newline>'' [Res res] w)
               else
                 (case printPhysicalDevicesProperties env i_devCount vkDev w of
                    (Some f, w) \<Rightarrow> (Crashed f, w)
                  | (None, w) \<Rightarrow>
                      (let w = (if base vkDev \<noteq> 0 then free (base vkDev) w else w);
                           w = emit (VkDestroyInstance vkInst) w
                       in (Exited 0, w)))))"

section \<open>Enumerating the queue families (tutorials 2 and 3)\<close>

text \<open>
  The native query returns nothing (the source has no status to look at). The
  out-parameters \<open>i_Count\<close> and \<open>vkQuFamProps\<close> are returned after the status.
\<close>

definition getQueueFamilyProperites ::
  "native \<Rightarrow> addr \<Rightarrow> uint32_t \<Rightarrow> VkQueueFamilyProperties buffer \<Rightarrow> world
     \<Rightarrow> VkResult \<times> uint32_t \<times> VkQueueFamilyProperties buffer \<times> world" where
  "getQueueFamilyProperites env vkPhysDev i_Count vkQuFamProps w =
     (let w = emit (VkGetPhysicalDeviceQueueFamilyProperties vkPhysDev i_Count 0) w;
          i_Count = queueFamilyCount env vkPhysDev;
          (p, w) = malloc env (sizeof_VkQueueFamilyProperties env * ucast i_Count) w;
          vkQuFamProps = \<lparr>base = p, cells = []\<rparr>
      in if base vkQuFamProps = 0
         then (VK_ERROR_OUT_OF_HOST_MEMORY, i_Count, vkQuFamProps,
               printf ''Couldn't allocate memory for the physical device array: %d\<newline>'' [Errno] w)
         else
           (let w = emit (VkGetPhysicalDeviceQueueFamilyProperties vkPhysDev i_Count (base vkQuFamProps)) w;
                vkQuFamProps = vkQuFamProps\<lparr>cells :=
                   take (unat i_Count) (queueFamilies env vkPhysDev)\<rparr>;
                i_Count = of_nat (length (cells vkQuFamProps))
            in (VK_SUCCESS, i_Count, vkQuFamProps, w)))"

section \<open>Tutorial 2\<close>

text \<open>
  The inner loop of \<open>printQueueFamilyInfo\<close> over the queue families of one device,
  from the counter \<open>j\<close> on. (The native layer is passed for the reads of the array.)
\<close>

function printQueueFamilyInfo_families_from ::
  "native \<Rightarrow> uint32_t \<Rightarrow> VkQueueFamilyProperties buffer \<Rightarrow> uint32_t \<Rightarrow> world
     \<Rightarrow> fault option \<times> world" where
  "printQueueFamilyInfo_families_from env i_famCount vkQuFamProp j w =
     (if j < i_famCount then
        (case index (unwritten_families env) vkQuFamProp (unat j) of
           Inl f \<Rightarrow> (Some f, w)
         | Inr q \<Rightarrow>
             (let w = printf (tab @ '' Index: %d\<newline>'') [U32 j] w;
                  w = printf (tab @ '' Count of Queues: %d\<newline>'') [U32 (qfQueueCount q)] w;
                  w = printf (tab @ '' Minimum Image Transfer Granularity (Width Height Depth): (%d %d %d)\<newline>'')
                        [U32 (width (minImageTransferGranularity q)),
                         U32 (height (minImageTransferGranularity q)),
                         U32 (depth (minImageTransferGranularity q))] w;
                  w = printf (tab @ '' Supported operations on this queue:\<newline>'') [] w;
                  w = (if queueFlags q AND VK_QUEUE_GRAPHICS_BIT \<noteq> 0
                       then printf (tab @ tab @ '' Graphics\<newline>'') [] w else w);
                  w = (if queueFlags q AND VK_QUEUE_COMPUTE_BIT \<noteq> 0
                       then printf (tab @ tab @ '' Compute\<newline>'') [] w else w);
                  w = (if queueFlags q AND VK_QUEUE_TRANSFER_BIT \<noteq> 0
                       then printf (tab @ tab @ '' Transfer\<newline>'') [] w else w);
                  w = (if queueFlags q AND VK_QUEUE_SPARSE_BINDING_BIT \<noteq> 0
                       then printf (tab @ tab @ '' Sparse Binding\<newline>'') [] w else w);
                  w = printf ''\<newline>'' [] w
              in printQueueFamilyInfo_families_from env i_famCount vkQuFamProp (j + 1) w))
      else (None, w))"
  by pat_completeness auto
termination
proof (relation "measure (\<lambda>(env, i_famCount, vkQuFamProp, j, w). unat i_famCount - unat j)", goal_cases)
  case 1
  show ?case by simp
next
  case (2 env i_famCount vkQuFamProp j w q)
  have lt: "unat j < unat i_famCount"
    using 2(1) by (simp add: word_less_nat_alt)
  have "unat i_famCount < 2 ^ 32"
    using unsigned_less [of i_famCount, where ?'a = nat] by simp
  with lt have "unat (j + 1) = Suc (unat j)"
    by (simp add: unat_word_ariths)
  with lt show ?case by simp
qed

text \<open>
  One iteration of the outer loop, for the device \<open>vkPhysDev[i]\<close>. The variable
  \<open>vkQuFamProp\<close> lives across the iterations, so the iteration takes and returns it.
\<close>

definition printQueueFamilyInfo_device ::
  "native \<Rightarrow> addr \<Rightarrow> VkQueueFamilyProperties buffer \<Rightarrow> world
     \<Rightarrow> fault option \<times> VkQueueFamilyProperties buffer \<times> world" where
  "printQueueFamilyInfo_device env d vkQuFamProp w =
     (let i_famCount = 0;
          w = emit (VkGetPhysicalDeviceProperties d) w;
          w = printf '' Device Name: %s (Type: %d)\<newline>''
                [Str (deviceName (vkGetPhysicalDeviceProperties_ret env d)),
                 U32 (deviceType (vkGetPhysicalDeviceProperties_ret env d))] w;
          (res, i_famCount, vkQuFamProp, w) = getQueueFamilyProperites env d i_famCount vkQuFamProp w;
          w = printf '' Device Queue Family Count: %d\<newline>'' [U32 i_famCount] w;
          (f, w) = (if res \<noteq> VK_SUCCESS
                    then (None, printf (tab @ ''Error: Could no get the list of queue families: %d\<newline>'')
                                  [Res res] w)
                    else printQueueFamilyInfo_families_from env i_famCount vkQuFamProp 0 w)
      in case f of
           Some f \<Rightarrow> (Some f, vkQuFamProp, w)
         | None \<Rightarrow>
             (if base vkQuFamProp \<noteq> 0
              then (None, null_families, free (base vkQuFamProp) w)
              else (None, vkQuFamProp, w)))"

function printQueueFamilyInfo_from ::
  "native \<Rightarrow> addr buffer \<Rightarrow> uint32_t \<Rightarrow> VkQueueFamilyProperties buffer \<Rightarrow> uint32_t \<Rightarrow> world
     \<Rightarrow> fault option \<times> world" where
  "printQueueFamilyInfo_from env vkPhysDev i_Count vkQuFamProp i w =
     (if i < i_Count then
        (case index (unwritten_devices env) vkPhysDev (unat i) of
           Inl f \<Rightarrow> (Some f, w)
         | Inr d \<Rightarrow>
             (case printQueueFamilyInfo_device env d vkQuFamProp w of
                (Some f, vkQuFamProp, w) \<Rightarrow> (Some f, w)
              | (None, vkQuFamProp, w) \<Rightarrow>
                  printQueueFamilyInfo_from env vkPhysDev i_Count vkQuFamProp (i + 1) w))
      else (None, w))"
  by pat_completeness auto
termination
proof (relation "measure (\<lambda>(env, vkPhysDev, i_Count, vkQuFamProp, i, w). unat i_Count - unat i)", goal_cases)
  case 1
  show ?case by simp
next
  case (2 env vkPhysDev i_Count vkQuFamProp i w d r)
  have lt: "unat i < unat i_Count"
    using 2(1) by (simp add: word_less_nat_alt)
  have "unat i_Count < 2 ^ 32"
    using unsigned_less [of i_Count, where ?'a = nat] by simp
  with lt have "unat (i + 1) = Suc (unat i)"
    by (simp add: unat_word_ariths)
  with lt show ?case by simp
qed

definition printQueueFamilyInfo ::
  "native \<Rightarrow> addr buffer \<Rightarrow> uint32_t \<Rightarrow> world \<Rightarrow> fault option \<times> world" where
  "printQueueFamilyInfo env vkPhysDev i_Count w =
     printQueueFamilyInfo_from env vkPhysDev i_Count null_families 0 w"

text \<open>The statements after the label \<open>cleanup\<close> of \<open>main\<close>.\<close>

definition cleanup02 :: "addr \<Rightarrow> addr buffer \<Rightarrow> world \<Rightarrow> outcome \<times> world" where
  "cleanup02 vkInst vkPhysDev w =
     (let w = (if base vkPhysDev \<noteq> 0 then free (base vkPhysDev) w else w);
          w = emit (VkDestroyInstance vkInst) w;
          w = printf '' Cleanup done.\<newline>'' [] w
      in (Exited 0, w))"

definition main02 :: "native \<Rightarrow> outcome \<times> world" where
  "main02 env =
     (let vkPhysDev = null_devices;
          i_devCount = 0;
          (res, vkInst, w) = createInstance env ''vulkan-tut02'' init_world
      in if res \<noteq> VK_SUCCESS
         then (Exited (- 1), printf ''Failed to create instance: %d\<newline>'' [Res res] w)
         else
           (let (res, i_devCount, vkPhysDev, w) =
                  createPhysicalDevicesArray env vkInst i_devCount vkPhysDev w
            in if res \<noteq> VK_SUCCESS
               then cleanup02 vkInst vkPhysDev
                      (printf ''Failed to create physical devices list: %d\<newline>'' [Res res] w)
               else
                 (case printQueueFamilyInfo env vkPhysDev i_devCount w of
                    (Some f, w) \<Rightarrow> (Crashed f, w)
                  | (None, w) \<Rightarrow> cleanup02 vkInst vkPhysDev w)))"

section \<open>Tutorial 3\<close>

text \<open>The statements after the label \<open>cleanup\<close> of \<open>createDevice\<close>.\<close>

definition createDevice_cleanup ::
  "VkResult \<Rightarrow> addr \<Rightarrow> VkQueueFamilyProperties buffer \<Rightarrow> world \<Rightarrow> VkResult \<times> addr \<times> world" where
  "createDevice_cleanup res vkDev vkQuFamProps w =
     (if base vkQuFamProps \<noteq> 0
      then (res, vkDev, free (base vkQuFamProps) w)
      else (res, vkDev, w))"

definition device_descriptor :: VkDeviceCreateInfo where
  "device_descriptor =
     (let vkDevInfo = zero_VkDeviceCreateInfo;
          vkDevQuInfo = zero_VkDeviceQueueCreateInfo;
          f_quPriority = 1.0;
          vkDevInfo = vkDevInfo\<lparr>sType := VK_STRUCTURE_TYPE_DEVICE_CREATE_INFO\<rparr>;
          vkDevInfo = vkDevInfo\<lparr>pNext := 0\<rparr>;
          vkDevInfo = vkDevInfo\<lparr>flags := 0\<rparr>;
          vkDevInfo = vkDevInfo\<lparr>enabledLayerCount := 0\<rparr>;
          vkDevInfo = vkDevInfo\<lparr>ppEnabledLayerNames := 0\<rparr>;
          vkDevInfo = vkDevInfo\<lparr>enabledExtensionCount := 0\<rparr>;
          vkDevInfo = vkDevInfo\<lparr>ppEnabledExtensionNames := 0\<rparr>;
          vkDevQuInfo = vkDevQuInfo\<lparr>sType := VK_STRUCTURE_TYPE_DEVICE_QUEUE_CREATE_INFO\<rparr>;
          vkDevQuInfo = vkDevQuInfo\<lparr>pNext := 0\<rparr>;
          vkDevQuInfo = vkDevQuInfo\<lparr>flags := 0\<rparr>;
          vkDevQuInfo = vkDevQuInfo\<lparr>queueFamilyIndex := 0\<rparr>;
          vkDevQuInfo = vkDevQuInfo\<lparr>queueCount := 1\<rparr>;
          vkDevQuInfo = vkDevQuInfo\<lparr>pQueuePriorities := [f_quPriority]\<rparr>;
          vkDevInfo = vkDevInfo\<lparr>queueCreateInfoCount := 1\<rparr>;
          vkDevInfo = vkDevInfo\<lparr>pQueueCreateInfos := [vkDevQuInfo]\<rparr>
      in vkDevInfo)"

text \<open>
  \<open>createDevice\<close> fills the descriptors (the queue descriptor after the queue
  families were read, which changes nothing in their values), and has the
  out-parameter \<open>vkDev\<close>.
\<close>

definition createDevice :: "native \<Rightarrow> addr \<Rightarrow> addr \<Rightarrow> world \<Rightarrow> VkResult \<times> addr \<times> world" where
  "createDevice env vkPhysDev vkDev w =
     (let vkQuFamProps = null_families;
          i_quFamCnt = 0;
          (res, i_quFamCnt, vkQuFamProps, w) =
             getQueueFamilyProperites env vkPhysDev i_quFamCnt vkQuFamProps w
      in if res \<noteq> VK_SUCCESS
         then createDevice_cleanup res vkDev vkQuFamProps w
         else
           (let w = emit (VkCreateDevice vkPhysDev device_descriptor) w;
                res = fst (vkCreateDevice_ret env);
                vkDev = snd (vkCreateDevice_ret env)
            in createDevice_cleanup res vkDev vkQuFamProps w))"

text \<open>The statements after the label \<open>cleanup\<close> of \<open>main\<close>.\<close>

definition cleanup03 :: "addr \<Rightarrow> addr buffer \<Rightarrow> addr \<Rightarrow> world \<Rightarrow> outcome \<times> world" where
  "cleanup03 vkInst vkPhysDev vkDev w =
     (let w = emit (VkDestroyDevice vkDev) w;
          w = (if base vkPhysDev \<noteq> 0 then free (base vkPhysDev) w else w);
          w = emit (VkDestroyInstance vkInst) w;
          w = printf '' Cleanup done.\<newline>'' [] w
      in (Exited 0, w))"

definition main03 :: "native \<Rightarrow> outcome \<times> world" where
  "main03 env =
     (let vkPhysDev = null_devices;
          vkDev = 0;
          i_devCount = 0;
          (res, vkInst, w) = createInstance env ''vulkan-tut03'' init_world
      in if res \<noteq> VK_SUCCESS
         then (Exited (- 1), printf ''Failed to create instance: %d\<newline>'' [Res res] w)
         else
           (let w = printf '' Instance created.\<newline>'' [] w;
                (res, i_devCount, vkPhysDev, w) =
                  createPhysicalDevicesArray env vkInst i_devCount vkPhysDev w
            in if res \<noteq> VK_SUCCESS
               then cleanup03 vkInst vkPhysDev vkDev
                      (printf ''Failed to create physical devices list: %d\<newline>'' [Res res] w)
               else
                 (let w = printf '' List of queue families, obtained.\<newline>'' [] w
                  in case index (unwritten_devices env) vkPhysDev 0 of
                       Inl f \<Rightarrow> (Crashed f, w)
                     | Inr d \<Rightarrow>
                         (let (res, vkDev, w) = createDevice env d vkDev w
                          in if res \<noteq> VK_SUCCESS
                             then cleanup03 vkInst vkPhysDev vkDev
                                    (printf ''Failed to create device: %d\<newline>'' [Res res] w)
                             else cleanup03 vkInst vkPhysDev vkDev
                                    (printf '' Logical device created.\<newline>'' [] w)))))"

section \<open>Properties of runs\<close>

text \<open>The events that release a resource, and the events that acquire one.\<close>

fun is_release :: "event \<Rightarrow> bool" where
  "is_release (Free p) = True"
| "is_release (VkDestroyDevice h) = True"
| "is_release (VkDestroyInstance h) = True"
| "is_release e = False"

fun is_acquisition :: "event \<Rightarrow> bool" where
  "is_acquisition (Malloc n p) = True"
| "is_acquisition (VkCreateInstance ci) = True"
| "is_acquisition (VkCreateDevice d ci) = True"
| "is_acquisition e = False"

text \<open>A release that is given a null pointer or a zero handle.\<close>

fun releases_null :: "event \<Rightarrow> bool" where
  "releases_null (Free p) = (p = 0)"
| "releases_null (VkDestroyDevice h) = (h = 0)"
| "releases_null (VkDestroyInstance h) = (h = 0)"
| "releases_null e = False"

text \<open>A creation call that enables neither a layer nor an extension.\<close>

definition enables_nothing :: "'a VkEnablingStructure_scheme \<Rightarrow> bool" where
  "enables_nothing ci \<longleftrightarrow>
     enabledLayerCount ci = 0 \<and> ppEnabledLayerNames ci = 0 \<and>
     enabledExtensionCount ci = 0 \<and> ppEnabledExtensionNames ci = 0"

fun no_layers_or_extensions :: "event \<Rightarrow> bool" where
  "no_layers_or_extensions (VkCreateInstance ci) = enables_nothing ci"
| "no_layers_or_extensions (VkCreateDevice d ci) = enables_nothing ci"
| "no_layers_or_extensions e = True"




section \<open>Native layers for the concrete runs\<close>

text \<open>
  A driver with one device of two queue families (graphics and compute with one
  queue, transfer only with two queues), on which every call succeeds, and the
  variations of it on which one step fails.
\<close>

definition sample_device :: VkPhysicalDeviceProperties where
  "sample_device =
     \<lparr>devApiVersion = packed_version 1 0 3, driverVersion = 1,
      deviceName = ''GPU'', deviceType = 2\<rparr>"

definition sample_families :: "VkQueueFamilyProperties list" where
  "sample_families =
     [\<lparr>queueFlags = 0x3, qfQueueCount = 1, timestampValidBits = 64,
       minImageTransferGranularity = \<lparr>width = 1, height = 1, depth = 1\<rparr>\<rparr>,
      \<lparr>queueFlags = 0x4, qfQueueCount = 2, timestampValidBits = 64,
       minImageTransferGranularity = \<lparr>width = 1, height = 1, depth = 1\<rparr>\<rparr>]"

definition native_ok :: native where
  "native_ok =
     \<lparr>VK_API_VERSION = packed_version 1 0 3,
      sizeof_VkPhysicalDevice = 8,
      sizeof_VkQueueFamilyProperties = 24,
      vkCreateInstance_ret = (VK_SUCCESS, 0x1000),
      vkEnumeratePhysicalDevices_count = (VK_SUCCESS, 1),
      vkEnumeratePhysicalDevices_fill = (VK_SUCCESS, [0x2000]),
      vkGetPhysicalDeviceProperties_ret = (\<lambda>d. sample_device),
      queueFamilyCount = (\<lambda>d. 2),
      queueFamilies = (\<lambda>d. sample_families),
      vkCreateDevice_ret = (VK_SUCCESS, 0x3000),
      malloc_ret = (\<lambda>n sz. 0x4000 + 0x100 * of_nat n),
      unwritten_devices = (\<lambda>p i. 0x5000),
      unwritten_families = (\<lambda>p i. hd sample_families)\<rparr>"

definition native_count_fails :: native where
  "native_count_fails =
     native_ok\<lparr>vkEnumeratePhysicalDevices_count := (VK_ERROR_INITIALIZATION_FAILED, 0)\<rparr>"

definition native_fill_fails :: native where
  "native_fill_fails =
     native_ok\<lparr>vkEnumeratePhysicalDevices_fill := (VK_ERROR_INITIALIZATION_FAILED, [])\<rparr>"

definition native_no_devices :: native where
  "native_no_devices =
     native_ok\<lparr>vkEnumeratePhysicalDevices_count := (VK_SUCCESS, 0),
               vkEnumeratePhysicalDevices_fill := (VK_SUCCESS, [])\<rparr>"

definition native_no_families :: native where
  "native_no_families =
     native_ok\<lparr>queueFamilyCount := (\<lambda>d. 0), queueFamilies := (\<lambda>d. [])\<rparr>"

definition native_no_families_null :: native where
  "native_no_families_null =
     native_no_families\<lparr>malloc_ret := (\<lambda>n sz. if sz = 0 then 0 else 0x4000 + 0x100 * of_nat n)\<rparr>"

definition native_no_memory :: native where
  "native_no_memory = native_ok\<lparr>malloc_ret := (\<lambda>n sz. 0)\<rparr>"

definition native_fill_empty :: native where
  "native_fill_empty = native_ok\<lparr>vkEnumeratePhysicalDevices_fill := (VK_SUCCESS, [])\<rparr>"

definition native_device_fails :: native where
  "native_device_fails = native_ok\<lparr>vkCreateDevice_ret := (VK_ERROR_INITIALIZATION_FAILED, 0)\<rparr>"

text \<open>
  The events between the creation of the instance and the teardown: queries, prints,
  allocations and frees of pointers that are not null (\<open>inner_event\<close>), and in
  tutorial 3 also the creation of the logical device, with the descriptor that
  \<open>createDevice\<close> builds (\<open>setup_event\<close>). \<open>destroys\<close> holds of the two destroy calls.
\<close>

fun inner_event :: "event \<Rightarrow> bool" where
  "inner_event (VkCreateInstance ci) = False"
| "inner_event (VkCreateDevice d ci) = False"
| "inner_event (VkDestroyDevice h) = False"
| "inner_event (VkDestroyInstance h) = False"
| "inner_event (Free p) = (p \<noteq> 0)"
| "inner_event e = True"

fun setup_event :: "event \<Rightarrow> bool" where
  "setup_event (VkCreateDevice d ci) = (ci = device_descriptor)"
| "setup_event e = inner_event e"


text \<open>The second world continues the trace of the first with inner events only.\<close>

definition appends_inner :: "world \<Rightarrow> world \<Rightarrow> bool" where
  "appends_inner w w' \<longleftrightarrow>
     take (length (trace w)) (trace w') = trace w \<and>
     list_all inner_event (drop (length (trace w)) (trace w'))"

text \<open>The events that \<open>w'\<close> has after the trace of \<open>w\<close>.\<close>

definition new_events :: "world \<Rightarrow> world \<Rightarrow> event list" where
  "new_events w w' = drop (length (trace w)) (trace w')"

text \<open>
  When a release fails. The sources do not say it, the native layer and the C library
  do: a heap array, a logical device or an instance can be released when it is live,
  and then it is live no more; releasing what is not live (a second time, or a value
  that never was a resource) fails. Whether a release of the null pointer or of the
  zero handle is accepted is left open, as two parameters: one for \<open>free\<close>, one for
  the two destroy calls. \<open>resource_run\<close> follows the live resources along a trace,
  and is \<open>None\<close> when a release fails; \<open>malloc\<close> makes the pointer it returns live,
  unless it is null. The creation calls are not followed: their events do not carry the
  handle, so a state in which handles are live is given as such.
\<close>

record resources =
  arrays :: "addr list"
  devices :: "addr list"
  instances :: "addr list"

record null_rules =
  free_accepts_null :: bool
  destroy_accepts_null :: bool

definition no_resources :: resources where
  "no_resources = \<lparr>arrays = [], devices = [], instances = []\<rparr>"

definition release :: "bool \<Rightarrow> addr \<Rightarrow> addr list \<Rightarrow> addr list option" where
  "release accepts_null x live =
     (if x = 0 then (if accepts_null then Some live else None)
      else if x \<in> set live then Some (remove1 x live)
      else None)"

fun resource_step :: "null_rules \<Rightarrow> event \<Rightarrow> resources \<Rightarrow> resources option" where
  "resource_step t (Malloc n p) r = Some (if p = 0 then r else r\<lparr>arrays := p # arrays r\<rparr>)"
| "resource_step t (Free p) r =
     (case release (free_accepts_null t) p (arrays r) of
        None \<Rightarrow> None | Some a \<Rightarrow> Some (r\<lparr>arrays := a\<rparr>))"
| "resource_step t (VkDestroyDevice h) r =
     (case release (destroy_accepts_null t) h (devices r) of
        None \<Rightarrow> None | Some d \<Rightarrow> Some (r\<lparr>devices := d\<rparr>))"
| "resource_step t (VkDestroyInstance h) r =
     (case release (destroy_accepts_null t) h (instances r) of
        None \<Rightarrow> None | Some i \<Rightarrow> Some (r\<lparr>instances := i\<rparr>))"
| "resource_step t e r = Some r"

fun resource_run :: "null_rules \<Rightarrow> event list \<Rightarrow> resources \<Rightarrow> resources option" where
  "resource_run t [] r = Some r"
| "resource_run t (e # es) r =
     (case resource_step t e r of None \<Rightarrow> None | Some r' \<Rightarrow> resource_run t es r')"

text \<open>
  A partially initialised state of \<open>main\<close> at the label \<open>cleanup\<close>: each of the three
  variables is null (zero), as it was initialised, or holds a live resource.
\<close>

definition partially_initialised :: "resources \<Rightarrow> addr \<Rightarrow> addr buffer \<Rightarrow> addr \<Rightarrow> bool" where
  "partially_initialised r vkInst vkPhysDev vkDev \<longleftrightarrow>
     (vkInst = 0 \<or> vkInst \<in> set (instances r)) \<and>
     (base vkPhysDev = 0 \<or> base vkPhysDev \<in> set (arrays r)) \<and>
     (vkDev = 0 \<or> vkDev \<in> set (devices r))"

text \<open>The live resources without \<open>x\<close>, where \<open>x\<close> may be null.\<close>

definition without :: "addr \<Rightarrow> addr list \<Rightarrow> addr list" where
  "without x live = (if x = 0 then live else remove1 x live)"



text \<open>
  A native layer on which \<open>createPhysicalDevicesArray\<close> goes through all its steps:
  the count query succeeds with a count that is not zero, the allocation returns a
  pointer, and the filling call succeeds.
\<close>

definition enumeration_succeeds :: "native \<Rightarrow> world \<Rightarrow> bool" where
  "enumeration_succeeds env w \<longleftrightarrow>
     fst (vkEnumeratePhysicalDevices_count env) = VK_SUCCESS \<and>
     snd (vkEnumeratePhysicalDevices_count env) \<noteq> 0 \<and>
     malloc_ret env (mallocs w)
       (sizeof_VkPhysicalDevice env * ucast (snd (vkEnumeratePhysicalDevices_count env))) \<noteq> 0 \<and>
     fst (vkEnumeratePhysicalDevices_fill env) = VK_SUCCESS"

section \<open>Verification\<close>

lemmas run_defs = main00_def main01_def main02_def main03_def createInstance_def vkCreateInstance_def
  instance_descriptor_def createPhysicalDevicesArray_def getQueueFamilyProperites_def
  createDevice_def createDevice_cleanup_def cleanup02_def cleanup03_def
  printQueueFamilyInfo_def printQueueFamilyInfo_device_def printPhysicalDevicesProperties_def
  malloc_def free_def emit_def printf_def init_world_def null_devices_def null_families_def index_def

lemmas native_defs =
  native_ok_def native_count_fails_def native_fill_fails_def native_no_devices_def
  native_no_families_def native_no_families_null_def native_no_memory_def
  native_fill_empty_def native_device_fails_def

subsection \<open>Traces of the functions\<close>

declare printPhysicalDevicesProperties_from.simps [simp del]
declare printQueueFamilyInfo_families_from.simps [simp del]
declare printQueueFamilyInfo_from.simps [simp del]

lemma appends_inner_iff:
  "appends_inner w w' \<longleftrightarrow> (\<exists>evs. trace w' = trace w @ evs \<and> list_all inner_event evs)"
proof
  assume a: "appends_inner w w'"
  have "trace w' = take (length (trace w)) (trace w') @ drop (length (trace w)) (trace w')"
    by simp
  with a show "\<exists>evs. trace w' = trace w @ evs \<and> list_all inner_event evs"
    unfolding appends_inner_def by metis
next
  assume "\<exists>evs. trace w' = trace w @ evs \<and> list_all inner_event evs"
  then show "appends_inner w w'"
    by (auto simp: appends_inner_def)
qed

lemma appends_inner_refl: "appends_inner w w"
  by (simp add: appends_inner_def)

lemma appends_inner_trans:
  "appends_inner a b \<Longrightarrow> appends_inner b c \<Longrightarrow> appends_inner a c"
  unfolding appends_inner_iff by auto

lemma appends_inner_emit:
  "inner_event e \<Longrightarrow> appends_inner w w' \<Longrightarrow> appends_inner w (emit e w')"
  unfolding appends_inner_iff by (auto simp: emit_def)

lemma appends_inner_printf:
  "appends_inner w w' \<Longrightarrow> appends_inner w (printf fmt args w')"
  by (simp add: printf_def appends_inner_emit)

lemma appends_inner_free:
  "p \<noteq> 0 \<Longrightarrow> appends_inner w w' \<Longrightarrow> appends_inner w (free p w')"
  by (simp add: free_def appends_inner_emit)

lemma appends_inner_malloc:
  "appends_inner w w' \<Longrightarrow> appends_inner w (snd (malloc env n w'))"
  unfolding appends_inner_iff by (auto simp: malloc_def emit_def Let_def)

lemma printPhysicalDevicesProperties_from_appends:
  "appends_inner w (snd (printPhysicalDevicesProperties_from env i_devCount vkPhysDev i w))"
proof (induction env i_devCount vkPhysDev i w rule: printPhysicalDevicesProperties_from.induct)
  case (1 env i_devCount vkPhysDev i w)
  show ?case
  proof (cases "i < i_devCount")
    case False
    then show ?thesis
      by (simp add: printPhysicalDevicesProperties_from.simps [of env i_devCount vkPhysDev i w]
          appends_inner_refl)
  next
    case True
    show ?thesis
    proof (cases "index (unwritten_devices env) vkPhysDev (unat i)")
      case (Inl f)
      with True show ?thesis
        by (simp add: printPhysicalDevicesProperties_from.simps [of env i_devCount vkPhysDev i w]
            appends_inner_refl)
    next
      case (Inr d)
      have step: "appends_inner w (printf fmt5 a5 (printf fmt4 a4 (printf fmt3 a3 (printf fmt2 a2
             (printf fmt1 a1 (emit (VkGetPhysicalDeviceProperties d) w))))))" for fmt1 a1 fmt2 a2 fmt3 a3 fmt4 a4 fmt5 a5
        by (intro appends_inner_printf appends_inner_emit appends_inner_refl) simp
      show ?thesis
        using appends_inner_trans [OF step "1.IH" [OF True Inr]] True Inr
        by (simp add: printPhysicalDevicesProperties_from.simps [of env i_devCount vkPhysDev i w])
    qed
  qed
qed

lemma printPhysicalDevicesProperties_appends:
  "appends_inner w (snd (printPhysicalDevicesProperties env i_devCount vkPhysDev w))"
  unfolding printPhysicalDevicesProperties_def
  by (rule appends_inner_trans [OF _ printPhysicalDevicesProperties_from_appends])
     (intro appends_inner_printf appends_inner_refl)

lemma getQueueFamilyProperites_appends:
  "appends_inner w (snd (snd (snd (getQueueFamilyProperites env d n b w))))"
  unfolding appends_inner_iff
  by (simp add: getQueueFamilyProperites_def malloc_def emit_def printf_def Let_def)

lemma printQueueFamilyInfo_families_from_appends:
  "appends_inner w (snd (printQueueFamilyInfo_families_from env i_famCount vkQuFamProp j w))"
proof (induction env i_famCount vkQuFamProp j w rule: printQueueFamilyInfo_families_from.induct)
  case (1 env i_famCount vkQuFamProp j w)
  show ?case
  proof (cases "j < i_famCount")
    case False
    then show ?thesis
      by (simp add: printQueueFamilyInfo_families_from.simps [of env i_famCount vkQuFamProp j w]
          appends_inner_refl)
  next
    case True
    show ?thesis
    proof (cases "index (unwritten_families env) vkQuFamProp (unat j)")
      case (Inl f)
      with True show ?thesis
        by (simp add: printQueueFamilyInfo_families_from.simps [of env i_famCount vkQuFamProp j w]
            appends_inner_refl)
    next
      case (Inr q)
      define w' where "w' = 
         (let w = printf (tab @ '' Index: %d\<newline>'') [U32 j] w;
                  w = printf (tab @ '' Count of Queues: %d\<newline>'') [U32 (qfQueueCount q)] w;
                  w = printf (tab @ '' Minimum Image Transfer Granularity (Width Height Depth): (%d %d %d)\<newline>'')
                        [U32 (width (minImageTransferGranularity q)),
                         U32 (height (minImageTransferGranularity q)),
                         U32 (depth (minImageTransferGranularity q))] w;
                  w = printf (tab @ '' Supported operations on this queue:\<newline>'') [] w;
                  w = (if queueFlags q AND VK_QUEUE_GRAPHICS_BIT \<noteq> 0
                       then printf (tab @ tab @ '' Graphics\<newline>'') [] w else w);
                  w = (if queueFlags q AND VK_QUEUE_COMPUTE_BIT \<noteq> 0
                       then printf (tab @ tab @ '' Compute\<newline>'') [] w else w);
                  w = (if queueFlags q AND VK_QUEUE_TRANSFER_BIT \<noteq> 0
                       then printf (tab @ tab @ '' Transfer\<newline>'') [] w else w);
                  w = (if queueFlags q AND VK_QUEUE_SPARSE_BINDING_BIT \<noteq> 0
                       then printf (tab @ tab @ '' Sparse Binding\<newline>'') [] w else w)
           in printf ''\<newline>'' [] w)"
      have step: "appends_inner w w'"
        unfolding w'_def Let_def
        by (intro appends_inner_printf) (auto intro!: appends_inner_printf appends_inner_refl)
      have ih: "appends_inner w' (snd (printQueueFamilyInfo_families_from env i_famCount vkQuFamProp (j + 1) w'))"
        using "1.IH" [OF True Inr refl refl refl refl refl refl refl refl refl]
        by (simp add: w'_def Let_def)
      show ?thesis
        using appends_inner_trans [OF step ih] True Inr
        by (simp add: printQueueFamilyInfo_families_from.simps [of env i_famCount vkQuFamProp j w] w'_def Let_def)
    qed
  qed
qed


lemma printQueueFamilyInfo_device_appends:
  "appends_inner w (snd (snd (printQueueFamilyInfo_device env d vkQuFamProp w)))"
proof -
  let ?w1 = "printf '' Device Name: %s (Type: %d)\<newline>''
                [Str (deviceName (vkGetPhysicalDeviceProperties_ret env d)),
                 U32 (deviceType (vkGetPhysicalDeviceProperties_ret env d))]
                (emit (VkGetPhysicalDeviceProperties d) w)"
  obtain res n b w2 where g: "getQueueFamilyProperites env d 0 vkQuFamProp ?w1 = (res, n, b, w2)"
    by (metis prod_cases4)
  have a1: "appends_inner w ?w1"
    by (intro appends_inner_printf appends_inner_emit appends_inner_refl) simp
  have a2: "appends_inner ?w1 w2"
    using getQueueFamilyProperites_appends [of ?w1 env d 0 vkQuFamProp] g by simp
  let ?w3 = "printf '' Device Queue Family Count: %d\<newline>'' [U32 n] w2"
  have a3: "appends_inner w ?w3"
    by (intro appends_inner_printf appends_inner_trans [OF a1 a2])
  obtain f w4 where l: "(if res \<noteq> VK_SUCCESS
                    then (None, printf (tab @ ''Error: Could no get the list of queue families: %d\<newline>'')
                                  [Res res] ?w3)
                    else printQueueFamilyInfo_families_from env n b 0 ?w3) = (f, w4)"
    by (metis prod.exhaust)
  have a4: "appends_inner ?w3 w4"
  proof (cases "res = VK_SUCCESS")
    case True
    with l show ?thesis
      using printQueueFamilyInfo_families_from_appends [of ?w3 env n b 0] by simp
  next
    case False
    with l show ?thesis
      by (auto intro!: appends_inner_printf appends_inner_refl)
  qed
  have a5: "appends_inner w w4"
    by (rule appends_inner_trans [OF a3 a4])
  have r: "printQueueFamilyInfo_device env d vkQuFamProp w =
        (case f of
           Some f \<Rightarrow> (Some f, b, w4)
         | None \<Rightarrow>
             (if base b \<noteq> 0
              then (None, null_families, free (base b) w4)
              else (None, b, w4)))"
    using g l by (simp add: printQueueFamilyInfo_device_def Let_def)
  show ?thesis
    unfolding r using a5 by (auto split: option.splits intro: appends_inner_free)
qed

lemma printQueueFamilyInfo_from_appends:
  "appends_inner w (snd (printQueueFamilyInfo_from env vkPhysDev i_Count vkQuFamProp i w))"
proof (induction env vkPhysDev i_Count vkQuFamProp i w rule: printQueueFamilyInfo_from.induct)
  case (1 env vkPhysDev i_Count vkQuFamProp i w)
  note s = printQueueFamilyInfo_from.simps [of env vkPhysDev i_Count vkQuFamProp i w]
  show ?case
  proof (cases "i < i_Count")
    case False
    then show ?thesis
      by (simp add: s appends_inner_refl)
  next
    case True
    show ?thesis
    proof (cases "index (unwritten_devices env) vkPhysDev (unat i)")
      case (Inl f)
      with True show ?thesis
        by (simp add: s appends_inner_refl)
    next
      case (Inr d)
      obtain f b w' where dv: "printQueueFamilyInfo_device env d vkQuFamProp w = (f, b, w')"
        by (metis prod_cases3)
      have step: "appends_inner w w'"
        using printQueueFamilyInfo_device_appends [of w env d vkQuFamProp] dv by simp
      show ?thesis
      proof (cases f)
        case (Some x)
        with True Inr dv step show ?thesis
          by (simp add: s)
      next
        case None
        have ih: "appends_inner w' (snd (printQueueFamilyInfo_from env vkPhysDev i_Count b (i + 1) w'))"
          using "1.IH" [OF True Inr] dv None by simp
        show ?thesis
          using appends_inner_trans [OF step ih] True Inr dv None
          by (simp add: s)
      qed
    qed
  qed
qed

lemma printQueueFamilyInfo_appends:
  "appends_inner w (snd (printQueueFamilyInfo env vkPhysDev i_Count w))"
  unfolding printQueueFamilyInfo_def by (rule printQueueFamilyInfo_from_appends)

lemma createPhysicalDevicesArray_appends:
  "appends_inner w (snd (snd (snd (createPhysicalDevicesArray env vkInst i_devCount vkPhysDev w))))"
  unfolding appends_inner_iff
  by (simp add: createPhysicalDevicesArray_def malloc_def emit_def printf_def Let_def)

lemma createPhysicalDevicesArray_base:
  "base (fst (snd (snd (createPhysicalDevicesArray env vkInst i_devCount vkPhysDev w)))) = base vkPhysDev \<or>
   (\<exists>n. Malloc n (base (fst (snd (snd (createPhysicalDevicesArray env vkInst i_devCount vkPhysDev w)))))
      \<in> set (drop (length (trace w))
          (trace (snd (snd (snd (createPhysicalDevicesArray env vkInst i_devCount vkPhysDev w)))))))"
  by (simp add: createPhysicalDevicesArray_def malloc_def emit_def printf_def Let_def)

lemma createDevice_trace:
  "\<exists>evs. trace (snd (snd (createDevice env pd vkDev w))) = trace w @ evs \<and>
         list_all setup_event evs \<and>
         (fst (snd (createDevice env pd vkDev w)) = vkDev \<or>
          fst (snd (createDevice env pd vkDev w)) = snd (vkCreateDevice_ret env) \<and>
          VkCreateDevice pd device_descriptor \<in> set evs)"
  by (simp add: createDevice_def createDevice_cleanup_def getQueueFamilyProperites_def
      malloc_def emit_def printf_def free_def null_families_def Let_def)


lemma instance_descriptor_enables_nothing: "enables_nothing (instance_descriptor env g_appName)"
  by (simp add: enables_nothing_def instance_descriptor_def zero_VkInstanceCreateInfo_def Let_def)

lemma device_descriptor_enables_nothing: "enables_nothing device_descriptor"
  by (simp add: enables_nothing_def device_descriptor_def zero_VkDeviceCreateInfo_def Let_def)

lemma inner_event_setup: "inner_event e \<Longrightarrow> setup_event e"
  by (cases e) simp_all

lemma setup_event_no_layers: "setup_event e \<Longrightarrow> no_layers_or_extensions e"
  by (cases e) (simp_all add: device_descriptor_enables_nothing)


lemma list_all_inner_setup: "list_all inner_event evs \<Longrightarrow> list_all setup_event evs"
  by (induction evs) (simp_all add: inner_event_setup)

lemma list_all_setup_no_layers: "list_all setup_event evs \<Longrightarrow> list_all no_layers_or_extensions evs"
  by (induction evs) (simp_all add: setup_event_no_layers)


lemma createInstance_eq:
  "createInstance env g_appName init_world =
     (fst (vkCreateInstance_ret env), snd (vkCreateInstance_ret env),
      \<lparr>trace = [VkCreateInstance (instance_descriptor env g_appName)], mallocs = 0\<rparr>)"
  by (simp add: createInstance_def vkCreateInstance_def emit_def init_world_def Let_def)

lemma cleanup02_eq:
  "cleanup02 vkInst vkPhysDev w =
     (Exited 0,
      w\<lparr>trace := trace w @ (if base vkPhysDev = 0 then [] else [Free (base vkPhysDev)]) @
         [VkDestroyInstance vkInst, Printf '' Cleanup done.\<newline>'' []]\<rparr>)"
  by (simp add: cleanup02_def free_def emit_def printf_def Let_def)

lemma cleanup03_eq:
  "cleanup03 vkInst vkPhysDev vkDev w =
     (Exited 0,
      w\<lparr>trace := trace w @ [VkDestroyDevice vkDev] @
         (if base vkPhysDev = 0 then [] else [Free (base vkPhysDev)]) @
         [VkDestroyInstance vkInst, Printf '' Cleanup done.\<newline>'' []]\<rparr>)"
  by (simp add: cleanup03_def free_def emit_def printf_def Let_def)

lemma index_in_range:
  "base b \<noteq> 0 \<Longrightarrow> i < length (cells b) \<Longrightarrow> index unwritten b i = Inr (cells b ! i)"
  by (simp add: index_def)

lemma word_less_index:
  fixes i n :: uint32_t
  assumes "i < n" and "unat n \<le> length xs"
  shows "unat i < length xs"
  using assms by (simp add: word_less_nat_alt)

lemma unat_written_count:
  fixes n :: uint32_t
  shows "unat (word_of_nat (min k (unat n)) :: uint32_t) = min k (unat n)"
  by (rule le_unat_uoi [of _ n]) simp

lemma createPhysicalDevicesArray_filled:
  assumes "createPhysicalDevicesArray env vkInst c null_devices w = (VK_SUCCESS, n, b, w')"
  shows "n = 0 \<or> base b \<noteq> 0 \<and> unat n \<le> length (cells b)"
  using assms
  by (auto simp: createPhysicalDevicesArray_def malloc_def Let_def null_devices_def unat_written_count
      split: if_splits)

lemma getQueueFamilyProperites_filled:
  assumes "getQueueFamilyProperites env d c b0 w = (VK_SUCCESS, n, b, w')"
  shows "base b \<noteq> 0 \<and> unat n \<le> length (cells b)"
  using assms
  by (auto simp: getQueueFamilyProperites_def malloc_def Let_def unat_written_count
      split: if_splits)

lemma printQueueFamilyInfo_families_from_no_fault:
  assumes "base vkQuFamProp \<noteq> 0" and "unat i_famCount \<le> length (cells vkQuFamProp)"
  shows "fst (printQueueFamilyInfo_families_from env i_famCount vkQuFamProp j w) = None"
  using assms
proof (induction env i_famCount vkQuFamProp j w rule: printQueueFamilyInfo_families_from.induct)
  case (1 env i_famCount vkQuFamProp j w)
  note s = printQueueFamilyInfo_families_from.simps [of env i_famCount vkQuFamProp j w]
  show ?case
  proof (cases "j < i_famCount")
    case False
    then show ?thesis by (simp add: s)
  next
    case True
    have ix: "index (unwritten_families env) vkQuFamProp (unat j) = Inr (cells vkQuFamProp ! unat j)"
      using word_less_index [OF True "1.prems"(2)] "1.prems"(1) by (simp add: index_in_range)
    show ?thesis
      using "1.IH" [OF True ix refl refl refl refl refl refl refl refl refl "1.prems"] True ix
      by (simp add: s Let_def)
  qed
qed

lemma printQueueFamilyInfo_device_no_fault:
  "fst (printQueueFamilyInfo_device env d vkQuFamProp w) = None"
proof -
  let ?w1 = "printf '' Device Name: %s (Type: %d)\<newline>''
                [Str (deviceName (vkGetPhysicalDeviceProperties_ret env d)),
                 U32 (deviceType (vkGetPhysicalDeviceProperties_ret env d))]
                (emit (VkGetPhysicalDeviceProperties d) w)"
  obtain res n b w2 where g: "getQueueFamilyProperites env d 0 vkQuFamProp ?w1 = (res, n, b, w2)"
    by (metis prod_cases4)
  show ?thesis
  proof (cases "res = VK_SUCCESS")
    case False
    with g show ?thesis
      by (simp add: printQueueFamilyInfo_device_def Let_def)
  next
    case True
    have f: "base b \<noteq> 0 \<and> unat n \<le> length (cells b)"
      using getQueueFamilyProperites_filled g True by blast
    let ?w3 = "printf '' Device Queue Family Count: %d\<newline>'' [U32 n] w2"
    obtain x w4 where l: "printQueueFamilyInfo_families_from env n b 0 ?w3 = (x, w4)"
      by (metis prod.exhaust)
    have "x = None"
      using printQueueFamilyInfo_families_from_no_fault [where vkQuFamProp = b and i_famCount = n and env = env and j = 0 and w = ?w3] f l by simp
    with True g l show ?thesis
      by (simp add: printQueueFamilyInfo_device_def Let_def)
  qed
qed

lemma printQueueFamilyInfo_from_no_fault:
  assumes "i_Count = 0 \<or> base vkPhysDev \<noteq> 0 \<and> unat i_Count \<le> length (cells vkPhysDev)"
  shows "fst (printQueueFamilyInfo_from env vkPhysDev i_Count vkQuFamProp i w) = None"
  using assms
proof (induction env vkPhysDev i_Count vkQuFamProp i w rule: printQueueFamilyInfo_from.induct)
  case (1 env vkPhysDev i_Count vkQuFamProp i w)
  note s = printQueueFamilyInfo_from.simps [of env vkPhysDev i_Count vkQuFamProp i w]
  show ?case
  proof (cases "i < i_Count")
    case False
    then show ?thesis by (simp add: s)
  next
    case True
    then have nz: "i_Count \<noteq> 0"
      by auto
    with "1.prems" have p: "base vkPhysDev \<noteq> 0" "unat i_Count \<le> length (cells vkPhysDev)"
      by simp_all
    have ix: "index (unwritten_devices env) vkPhysDev (unat i) = Inr (cells vkPhysDev ! unat i)"
      using word_less_index [OF True p(2)] p(1) by (simp add: index_in_range)
    obtain f b w' where dv: "printQueueFamilyInfo_device env (cells vkPhysDev ! unat i) vkQuFamProp w = (f, b, w')"
      by (metis prod_cases3)
    have f: "f = None"
      using printQueueFamilyInfo_device_no_fault [of env "cells vkPhysDev ! unat i" vkQuFamProp w] dv
      by simp
    show ?thesis
      using "1.IH" [OF True ix] dv f "1.prems" True ix
      by (simp add: s)
  qed
qed

lemma printPhysicalDevicesProperties_from_no_fault:
  assumes "i_devCount = 0 \<or> base vkPhysDev \<noteq> 0 \<and> unat i_devCount \<le> length (cells vkPhysDev)"
  shows "fst (printPhysicalDevicesProperties_from env i_devCount vkPhysDev i w) = None"
  using assms
proof (induction env i_devCount vkPhysDev i w rule: printPhysicalDevicesProperties_from.induct)
  case (1 env i_devCount vkPhysDev i w)
  note s = printPhysicalDevicesProperties_from.simps [of env i_devCount vkPhysDev i w]
  show ?case
  proof (cases "i < i_devCount")
    case False
    then show ?thesis by (simp add: s)
  next
    case True
    then have nz: "i_devCount \<noteq> 0"
      by auto
    with "1.prems" have p: "base vkPhysDev \<noteq> 0" "unat i_devCount \<le> length (cells vkPhysDev)"
      by simp_all
    have ix: "index (unwritten_devices env) vkPhysDev (unat i) = Inr (cells vkPhysDev ! unat i)"
      using word_less_index [OF True p(2)] p(1) by (simp add: index_in_range)
    show ?thesis
      using "1.IH" [OF True ix "1.prems"] True ix
      by (simp add: s)
  qed
qed

lemma main02_trace:
  "\<exists>evs. list_all inner_event evs \<and>
     (fst (vkCreateInstance_ret env) \<noteq> VK_SUCCESS \<and> fst (main02 env) = Exited (- 1) \<and>
      trace (snd (main02 env)) = VkCreateInstance (instance_descriptor env ''vulkan-tut02'') # evs
      \<or>
      fst (vkCreateInstance_ret env) = VK_SUCCESS \<and> fst (main02 env) = Exited 0 \<and>
      (\<exists>p. trace (snd (main02 env)) =
              VkCreateInstance (instance_descriptor env ''vulkan-tut02'') # evs @
              (if p = 0 then [] else [Free p]) @
              [VkDestroyInstance (snd (vkCreateInstance_ret env)), Printf '' Cleanup done.\<newline>'' []] \<and>
            (p = 0 \<or> (\<exists>n. Malloc n p \<in> set evs))))"
proof -
  let ?ci = "VkCreateInstance (instance_descriptor env ''vulkan-tut02'')"
  let ?res = "fst (vkCreateInstance_ret env)"
  let ?vkInst = "snd (vkCreateInstance_ret env)"
  let ?w1 = "\<lparr>trace = [?ci], mallocs = 0\<rparr>"
  note ci = createInstance_eq [of env "''vulkan-tut02''"]
  show ?thesis
  proof (cases "?res = VK_SUCCESS")
    case False
    then have "main02 env = (Exited (- 1), printf ''Failed to create instance: %d\<newline>'' [Res ?res] ?w1)"
      by (simp add: main02_def ci Let_def)
    with False show ?thesis
      by (intro exI [of _ "[Printf ''Failed to create instance: %d\<newline>'' [Res ?res]]"])
         (simp add: printf_def emit_def)
  next
    case True
    obtain r n b w2 where e: "createPhysicalDevicesArray env ?vkInst 0 null_devices ?w1 = (r, n, b, w2)"
      by (metis prod_cases4)
    have "appends_inner ?w1 w2"
      using createPhysicalDevicesArray_appends [of ?w1 env ?vkInst 0 null_devices] e by simp
    then obtain evs2 where t2: "trace w2 = ?ci # evs2" and i2: "list_all inner_event evs2"
      unfolding appends_inner_iff by auto
    have b: "base b = 0 \<or> (\<exists>n. Malloc n (base b) \<in> set evs2)"
      using createPhysicalDevicesArray_base [of env ?vkInst 0 null_devices ?w1] e t2
      by (simp add: null_devices_def)
    show ?thesis
    proof (cases "r = VK_SUCCESS")
      case False
      let ?msg = "Printf ''Failed to create physical devices list: %d\<newline>'' [Res r]"
      from False True have m: "main02 env = cleanup02 ?vkInst b
              (printf ''Failed to create physical devices list: %d\<newline>'' [Res r] w2)"
        by (simp add: main02_def ci e Let_def)
      have "\<exists>p. trace (snd (main02 env)) = ?ci # (evs2 @ [?msg]) @
              (if p = 0 then [] else [Free p]) @
              [VkDestroyInstance ?vkInst, Printf '' Cleanup done.\<newline>'' []] \<and>
            (p = 0 \<or> (\<exists>n. Malloc n p \<in> set (evs2 @ [?msg])))"
        by (rule exI [of _ "base b"]) (use b in \<open>auto simp: m cleanup02_eq printf_def emit_def t2\<close>)
      moreover have "fst (main02 env) = Exited 0"
        by (simp add: m cleanup02_eq)
      moreover have "list_all inner_event (evs2 @ [?msg])"
        using i2 by simp
      ultimately show ?thesis
        using True by blast
    next
      case r: True
      obtain f w3 where q: "printQueueFamilyInfo env b n w2 = (f, w3)"
        by (metis prod.exhaust)
      have "appends_inner w2 w3"
        using printQueueFamilyInfo_appends [of w2 env b n] q by simp
      then obtain evs3 where t3: "trace w3 = ?ci # evs2 @ evs3" and i3: "list_all inner_event evs3"
        unfolding appends_inner_iff using t2 by auto
      show ?thesis
      proof (cases f)
        case (Some x)
        have "n = 0 \<or> base b \<noteq> 0 \<and> unat n \<le> length (cells b)"
          using createPhysicalDevicesArray_filled e r by blast
        then have "fst (printQueueFamilyInfo env b n w2) = None"
          unfolding printQueueFamilyInfo_def by (rule printQueueFamilyInfo_from_no_fault)
        with q Some show ?thesis
          by simp
      next
        case None
        with r True have m: "main02 env = cleanup02 ?vkInst b w3"
          by (simp add: main02_def ci e q Let_def)
        have "\<exists>p. trace (snd (main02 env)) = ?ci # (evs2 @ evs3) @
                (if p = 0 then [] else [Free p]) @
                [VkDestroyInstance ?vkInst, Printf '' Cleanup done.\<newline>'' []] \<and>
              (p = 0 \<or> (\<exists>n. Malloc n p \<in> set (evs2 @ evs3)))"
          by (rule exI [of _ "base b"]) (use b in \<open>auto simp: m cleanup02_eq t3\<close>)
        moreover have "fst (main02 env) = Exited 0"
          by (simp add: m cleanup02_eq)
        moreover have "list_all inner_event (evs2 @ evs3)"
          using i2 i3 by simp
        ultimately show ?thesis
          using True by blast
      qed
    qed
  qed
qed


lemma main03_trace:
  "\<exists>evs. list_all setup_event evs \<and>
     (fst (vkCreateInstance_ret env) \<noteq> VK_SUCCESS \<and> fst (main03 env) = Exited (- 1) \<and>
      trace (snd (main03 env)) = VkCreateInstance (instance_descriptor env ''vulkan-tut03'') # evs
      \<or>
      fst (vkCreateInstance_ret env) = VK_SUCCESS \<and> (\<exists>f. fst (main03 env) = Crashed f) \<and>
      trace (snd (main03 env)) = VkCreateInstance (instance_descriptor env ''vulkan-tut03'') # evs
      \<or>
      fst (vkCreateInstance_ret env) = VK_SUCCESS \<and> fst (main03 env) = Exited 0 \<and>
      (\<exists>p d. trace (snd (main03 env)) =
              VkCreateInstance (instance_descriptor env ''vulkan-tut03'') # evs @
              [VkDestroyDevice d] @ (if p = 0 then [] else [Free p]) @
              [VkDestroyInstance (snd (vkCreateInstance_ret env)), Printf '' Cleanup done.\<newline>'' []] \<and>
            (p = 0 \<or> (\<exists>n. Malloc n p \<in> set evs)) \<and>
            (d = 0 \<or> d = snd (vkCreateDevice_ret env) \<and>
               (\<exists>pd. VkCreateDevice pd device_descriptor \<in> set evs))))"
proof -
  let ?ci = "VkCreateInstance (instance_descriptor env ''vulkan-tut03'')"
  let ?res = "fst (vkCreateInstance_ret env)"
  let ?vkInst = "snd (vkCreateInstance_ret env)"
  let ?w1 = "\<lparr>trace = [?ci], mallocs = 0\<rparr>"
  let ?w1' = "printf '' Instance created.\<newline>'' [] ?w1"
  let ?tail = "[VkDestroyInstance ?vkInst, Printf '' Cleanup done.\<newline>'' []]"
  note ci = createInstance_eq [of env "''vulkan-tut03''"]
  show ?thesis
  proof (cases "?res = VK_SUCCESS")
    case False
    then have "main03 env = (Exited (- 1), printf ''Failed to create instance: %d\<newline>'' [Res ?res] ?w1)"
      by (simp add: main03_def ci Let_def)
    with False show ?thesis
      by (intro exI [of _ "[Printf ''Failed to create instance: %d\<newline>'' [Res ?res]]"])
         (simp add: printf_def emit_def)
  next
    case True
    obtain r n b w2 where e: "createPhysicalDevicesArray env ?vkInst 0 null_devices ?w1' = (r, n, b, w2)"
      by (metis prod_cases4)
    have "appends_inner ?w1' w2"
      using createPhysicalDevicesArray_appends [of ?w1' env ?vkInst 0 null_devices] e by simp
    then obtain evs2 where t2: "trace w2 = ?ci # Printf '' Instance created.\<newline>'' [] # evs2"
        and i2: "list_all inner_event evs2"
      unfolding appends_inner_iff by (auto simp: printf_def emit_def)
    have b: "base b = 0 \<or> (\<exists>n. Malloc n (base b) \<in> set evs2)"
      using createPhysicalDevicesArray_base [of env ?vkInst 0 null_devices ?w1'] e t2
      by (simp add: null_devices_def printf_def emit_def)
    let ?evs2 = "Printf '' Instance created.\<newline>'' [] # evs2"
    have s2: "list_all setup_event ?evs2"
      using i2 by (simp add: list_all_inner_setup)
    show ?thesis
    proof (cases "r = VK_SUCCESS")
      case False
      let ?msg = "Printf ''Failed to create physical devices list: %d\<newline>'' [Res r]"
      from False True have m: "main03 env = cleanup03 ?vkInst b 0
              (printf ''Failed to create physical devices list: %d\<newline>'' [Res r] w2)"
        by (simp add: main03_def ci e Let_def)
      have "\<exists>p d. trace (snd (main03 env)) = ?ci # (?evs2 @ [?msg]) @
              [VkDestroyDevice d] @ (if p = 0 then [] else [Free p]) @ ?tail \<and>
            (p = 0 \<or> (\<exists>n. Malloc n p \<in> set (?evs2 @ [?msg]))) \<and>
            (d = 0 \<or> d = snd (vkCreateDevice_ret env) \<and>
               (\<exists>pd. VkCreateDevice pd device_descriptor \<in> set (?evs2 @ [?msg])))"
        by (rule exI [of _ "base b"], rule exI [of _ 0])
           (use b in \<open>auto simp: m cleanup03_eq printf_def emit_def t2\<close>)
      moreover have "fst (main03 env) = Exited 0"
        by (simp add: m cleanup03_eq)
      moreover have "list_all setup_event (?evs2 @ [?msg])"
        using s2 by simp
      ultimately show ?thesis
        using True by blast
    next
      case r: True
      let ?w2' = "printf '' List of queue families, obtained.\<newline>'' [] w2"
      let ?evs2' = "?evs2 @ [Printf '' List of queue families, obtained.\<newline>'' []]"
      have t2': "trace ?w2' = ?ci # ?evs2'"
        by (simp add: printf_def emit_def t2)
      have s2': "list_all setup_event ?evs2'"
        using s2 by simp
      show ?thesis
      proof (cases "index (unwritten_devices env) b 0")
        case (Inl f)
        with r True have "main03 env = (Crashed f, ?w2')"
          by (simp add: main03_def ci e Let_def)
        with True show ?thesis
          using s2' t2' by (intro exI [of _ ?evs2']) simp
      next
        case (Inr pd)
        obtain r3 vkDev w3 where c: "createDevice env pd 0 ?w2' = (r3, vkDev, w3)"
          by (metis prod_cases3)
        obtain evs3 where t3: "trace w3 = trace ?w2' @ evs3" and s3: "list_all setup_event evs3"
          and d: "vkDev = 0 \<or> vkDev = snd (vkCreateDevice_ret env) \<and>
                    VkCreateDevice pd device_descriptor \<in> set evs3"
          using createDevice_trace [of env pd 0 ?w2'] c by auto
        let ?msg = "if r3 \<noteq> VK_SUCCESS then Printf ''Failed to create device: %d\<newline>'' [Res r3]
                    else Printf '' Logical device created.\<newline>'' []"
        let ?w4 = "if r3 \<noteq> VK_SUCCESS then printf ''Failed to create device: %d\<newline>'' [Res r3] w3
                   else printf '' Logical device created.\<newline>'' [] w3"
        from Inr r True have m: "main03 env = cleanup03 ?vkInst b vkDev ?w4"
          by (simp add: main03_def ci e c Let_def)
        have t4: "trace ?w4 = trace w3 @ [?msg]"
          by (simp add: printf_def emit_def)
        let ?evs = "?evs2' @ evs3 @ [?msg]"
        have "\<exists>p d. trace (snd (main03 env)) = ?ci # ?evs @
                [VkDestroyDevice d] @ (if p = 0 then [] else [Free p]) @ ?tail \<and>
              (p = 0 \<or> (\<exists>n. Malloc n p \<in> set ?evs)) \<and>
              (d = 0 \<or> d = snd (vkCreateDevice_ret env) \<and>
                 (\<exists>pd. VkCreateDevice pd device_descriptor \<in> set ?evs))"
          by (rule exI [of _ "base b"], rule exI [of _ vkDev])
             (use b d in \<open>auto simp: m cleanup03_eq t4 t3 t2'\<close>)
        moreover have "fst (main03 env) = Exited 0"
          by (simp add: m cleanup03_eq)
        moreover have "list_all setup_event ?evs"
          using s2' s3 by simp
        ultimately show ?thesis
          using True by blast
      qed
    qed
  qed
qed

lemma main01_trace:
  "\<exists>evs. list_all no_layers_or_extensions evs \<and>
     trace (snd (main01 env)) = VkCreateInstance (instance_descriptor env ''vulkan-tut01'') # evs"
proof -
  let ?ci = "VkCreateInstance (instance_descriptor env ''vulkan-tut01'')"
  let ?res = "fst (vkCreateInstance_ret env)"
  let ?vkInst = "snd (vkCreateInstance_ret env)"
  let ?w1 = "\<lparr>trace = [?ci], mallocs = 0\<rparr>"
  note ci = createInstance_eq [of env "''vulkan-tut01''"]
  show ?thesis
  proof (cases "?res = VK_SUCCESS")
    case False
    then show ?thesis
      by (simp add: main01_def ci Let_def printf_def emit_def)
  next
    case True
    obtain r n b w2 where e: "createPhysicalDevicesArray env ?vkInst 0 null_devices ?w1 = (r, n, b, w2)"
      by (metis prod_cases4)
    have "appends_inner ?w1 w2"
      using createPhysicalDevicesArray_appends [of ?w1 env ?vkInst 0 null_devices] e by simp
    then obtain evs2 where t2: "trace w2 = ?ci # evs2" and i2: "list_all inner_event evs2"
      unfolding appends_inner_iff by auto
    have n2: "list_all no_layers_or_extensions evs2"
      using i2 by (simp add: list_all_inner_setup list_all_setup_no_layers)
    show ?thesis
    proof (cases "r = VK_SUCCESS")
      case False
      with True show ?thesis
        using n2 by (simp add: main01_def ci e Let_def printf_def emit_def t2)
    next
      case r: True
      obtain f w3 where q: "printPhysicalDevicesProperties env n b w2 = (f, w3)"
        by (metis prod.exhaust)
      have "appends_inner w2 w3"
        using printPhysicalDevicesProperties_appends [of w2 env n b] q by simp
      then obtain evs3 where t3: "trace w3 = ?ci # evs2 @ evs3" and i3: "list_all inner_event evs3"
        unfolding appends_inner_iff using t2 by auto
      have n3: "list_all no_layers_or_extensions evs3"
        using i3 by (simp add: list_all_inner_setup list_all_setup_no_layers)
      show ?thesis
        using r True n2 n3
        by (cases f) (simp_all add: main01_def ci e q Let_def free_def emit_def t3)
    qed
  qed
qed

text \<open>
  The size of an allocation for \<open>n\<close> elements: the product in \<open>size_t\<close> does not wrap
  when the element size is below \<open>2^32\<close>, so the array has room for exactly \<open>n\<close>
  elements. \<open>createPhysicalDevicesArray\<close> allocates this size for the count that its
  count query reported, when that count is not zero.
\<close>

lemma unat_ucast_count: "unat (ucast (n :: uint32_t) :: size_t) = unat n"
  by (simp add: unsigned_ucast_eq take_bit_nat_eq_self
      less_trans [OF unsigned_less [of n, where ?'a = nat]])

lemma allocation_size_exact:
  fixes sz :: size_t and n :: uint32_t
  assumes "unat sz < 2 ^ 32"
  shows "unat (sz * ucast n) = unat sz * unat n"
proof -
  have n: "unat n < 2 ^ 32"
    using unsigned_less [of n, where ?'a = nat] by simp
  have "unat sz * unat n < 2 ^ 32 * 2 ^ 32"
    using assms n by (intro mult_strict_mono) simp_all
  then have "unat sz * unat n < 2 ^ 64"
    by simp
  then show ?thesis
    by (simp add: unat_word_ariths unat_ucast_count)
qed

lemma createPhysicalDevicesArray_allocation:
  assumes "vkEnumeratePhysicalDevices_count env = (VK_SUCCESS, n)" and "n \<noteq> 0"
  shows "take 2 (drop (length (trace w))
           (trace (snd (snd (snd (createPhysicalDevicesArray env vkInst i_devCount vkPhysDev w)))))) =
         [VkEnumeratePhysicalDevices vkInst i_devCount 0,
          Malloc (sizeof_VkPhysicalDevice env * ucast n)
            (malloc_ret env (mallocs w) (sizeof_VkPhysicalDevice env * ucast n))]"
  using assms
  by (simp add: createPhysicalDevicesArray_def malloc_def emit_def printf_def Let_def)






lemma new_events_emit:
  assumes "appends_inner w w'"
  shows "new_events w (emit e w') = new_events w w' @ [e]"
proof -
  obtain x where x: "trace w' = trace w @ x"
    using assms unfolding appends_inner_iff by auto
  show ?thesis
    by (simp add: new_events_def emit_def x)
qed










lemma createPhysicalDevicesArray_zero_status:
  assumes "vkEnumeratePhysicalDevices_count env = (VK_SUCCESS, 0)"
  shows "fst (createPhysicalDevicesArray env vkInst i_devCount vkPhysDev w) = VK_SUCCESS"
  using assms by (simp add: createPhysicalDevicesArray_def Let_def)








text \<open>
  A release of what is not live fails: the cleanup of tutorial 2 on a pointer that was
  never allocated, or that was freed before.
\<close>

lemma cleanup_fails_on_dangling_pointer:
  "resource_run t
     (new_events init_world (snd (cleanup02 0x1000 \<lparr>base = 0x4000, cells = []\<rparr> init_world)))
     (no_resources\<lparr>instances := [0x1000]\<rparr>) = None"
  by (simp add: cleanup02_eq new_events_def init_world_def no_resources_def release_def)

subsection \<open>Exit codes\<close>

text \<open>
  C1. The claim: the exit code is 0 on full success and -1 on a failure of instance
  creation or of the enumeration. On a driver whose count query fails with
  \<open>VK_ERROR_INITIALIZATION_FAILED\<close>, tutorials 2 and 3 print the failure, go to
  \<open>cleanup\<close> and return 0, where tutorial 1 returns -1.
\<close>

theorem main_exit_code_after_failed_enumeration:
  "fst (main02 native_count_fails) = Exited 0 \<and>
   fst (main03 native_count_fails) = Exited 0 \<and>
   fst (main01 native_count_fails) = Exited (- 1) \<and>
   Printf ''Failed to create physical devices list: %d\<newline>'' [Res VK_ERROR_INITIALIZATION_FAILED]
     \<in> set (trace (snd (main02 native_count_fails)))"
  by (simp add: run_defs native_defs Let_def)

subsection \<open>Release after a failure\<close>

text \<open>
  C2. The claim: a failure after a resource was acquired falls through to the teardown,
  so that the device array and the instance are released. On a driver whose filling
  call fails, tutorial 1 has created the instance and allocated the array, and returns
  -1 without releasing either; tutorial 2 releases both on the same driver.
\<close>

theorem main01_releases_nothing_after_failed_enumeration:
  "fst (main01 native_fill_fails) = Exited (- 1) \<and>
   filter is_acquisition (trace (snd (main01 native_fill_fails))) =
     [VkCreateInstance (instance_descriptor native_fill_fails ''vulkan-tut01''), Malloc 8 0x4000] \<and>
   filter is_release (trace (snd (main01 native_fill_fails))) = [] \<and>
   filter is_release (trace (snd (main02 native_fill_fails))) = [Free 0x4000, VkDestroyInstance 0x1000]"
  by (simp add: run_defs native_defs Let_def)

subsection \<open>No device present\<close>

text \<open>
  C3. When the count query succeeds with the count zero, \<open>createPhysicalDevicesArray\<close>
  prints its message and returns the status of the count query, \<open>VK_SUCCESS\<close>, without
  allocating and without touching the caller's pointer; this is the status it returns
  when the whole enumeration succeeds, so the status does not tell the two apart.
\<close>

theorem createPhysicalDevicesArray_zero_devices:
  assumes "vkEnumeratePhysicalDevices_count env = (VK_SUCCESS, 0)"
  shows "createPhysicalDevicesArray env vkInst i_devCount vkPhysDev w =
           (VK_SUCCESS, 0, vkPhysDev,
            w\<lparr>trace := trace w @
               [VkEnumeratePhysicalDevices vkInst i_devCount 0,
                Printf ''Couldn't detect any device present with Vulkan support: %d\<newline>''
                  [Res VK_SUCCESS]]\<rparr>) \<and>
         (enumeration_succeeds env' w' \<longrightarrow>
            fst (createPhysicalDevicesArray env' vkInst' i_devCount' vkPhysDev' w') =
            fst (createPhysicalDevicesArray env vkInst i_devCount vkPhysDev w))"
  using assms by (simp add: run_defs enumeration_succeeds_def Let_def)

theorem createPhysicalDevicesArray_zero_devices_witness:
  "vkEnumeratePhysicalDevices_count native_no_devices = (VK_SUCCESS, 0) \<and>
   enumeration_succeeds native_ok init_world \<and>
   fst (createPhysicalDevicesArray native_no_devices 0x1000 0 null_devices init_world) = VK_SUCCESS \<and>
   fst (createPhysicalDevicesArray native_ok 0x1000 0 null_devices init_world) = VK_SUCCESS \<and>
   trace (snd (snd (snd (createPhysicalDevicesArray native_no_devices 0x1000 0 null_devices init_world)))) =
     [VkEnumeratePhysicalDevices 0x1000 0 0,
      Printf ''Couldn't detect any device present with Vulkan support: %d\<newline>'' [Res VK_SUCCESS]]"
proof -
  have h: "vkEnumeratePhysicalDevices_count native_no_devices = (VK_SUCCESS, 0)"
    by (simp add: native_defs)
  have s: "enumeration_succeeds native_ok init_world"
    by (simp add: enumeration_succeeds_def native_defs init_world_def)
  show ?thesis
    using h s createPhysicalDevicesArray_zero_devices
      [OF h, where env' = native_ok and w' = init_world and vkInst = "0x1000" and i_devCount = 0
        and vkPhysDev = null_devices and w = init_world and vkInst' = "0x1000" and i_devCount' = 0
        and vkPhysDev' = null_devices]
    by (simp add: init_world_def)
qed

subsection \<open>The count-then-fill allocation\<close>

text \<open>
  C6. The claim: the array has as many entries as the count query reported, and for the
  count zero nothing is allocated and the condition is reported. On a device that
  reports no queue family, \<open>getQueueFamilyProperites\<close> calls \<open>malloc\<close> with the size 0,
  prints nothing and returns \<open>VK_SUCCESS\<close>.
\<close>

theorem getQueueFamilyProperites_allocates_for_zero_families:
  "getQueueFamilyProperites native_no_families 0x2000 0 null_families init_world =
     (VK_SUCCESS, 0, \<lparr>base = 0x4000, cells = []\<rparr>,
      \<lparr>trace = [VkGetPhysicalDeviceQueueFamilyProperties 0x2000 0 0, Malloc 0 0x4000,
                 VkGetPhysicalDeviceQueueFamilyProperties 0x2000 0 0x4000],
       mallocs = 1\<rparr>)"
  by (simp add: run_defs native_defs Let_def)

subsection \<open>The status of the queue family enumeration\<close>

text \<open>
  C7. \<open>getQueueFamilyProperites\<close> returns \<open>VK_ERROR_OUT_OF_HOST_MEMORY\<close> when \<open>malloc\<close>
  returns null and \<open>VK_SUCCESS\<close> otherwise, whatever the count query left in the count:
  it queries the count, allocates for that count, and then either prints the allocation
  failure or queries again with the buffer.
\<close>

theorem getQueueFamilyProperites_status:
  "fst (getQueueFamilyProperites env vkPhysDev i_Count vkQuFamProps w) =
     (if malloc_ret env (mallocs w)
           (sizeof_VkQueueFamilyProperties env * ucast (queueFamilyCount env vkPhysDev)) = 0
      then VK_ERROR_OUT_OF_HOST_MEMORY else VK_SUCCESS) \<and>
   trace (snd (snd (snd (getQueueFamilyProperites env vkPhysDev i_Count vkQuFamProps w)))) =
     trace w @
     [VkGetPhysicalDeviceQueueFamilyProperties vkPhysDev i_Count 0,
      Malloc (sizeof_VkQueueFamilyProperties env * ucast (queueFamilyCount env vkPhysDev))
        (malloc_ret env (mallocs w)
           (sizeof_VkQueueFamilyProperties env * ucast (queueFamilyCount env vkPhysDev)))] @
     (if malloc_ret env (mallocs w)
           (sizeof_VkQueueFamilyProperties env * ucast (queueFamilyCount env vkPhysDev)) = 0
      then [Printf ''Couldn't allocate memory for the physical device array: %d\<newline>'' [Errno]]
      else [VkGetPhysicalDeviceQueueFamilyProperties vkPhysDev (queueFamilyCount env vkPhysDev)
              (malloc_ret env (mallocs w)
                 (sizeof_VkQueueFamilyProperties env * ucast (queueFamilyCount env vkPhysDev)))])"
  by (simp add: run_defs Let_def)

theorem getQueueFamilyProperites_status_witness:
  "fst (getQueueFamilyProperites native_no_memory 0x2000 0 null_families init_world) =
     VK_ERROR_OUT_OF_HOST_MEMORY \<and>
   fst (getQueueFamilyProperites native_ok 0x2000 0 null_families init_world) = VK_SUCCESS"
  using getQueueFamilyProperites_status [of native_no_memory "0x2000" 0 null_families init_world]
    getQueueFamilyProperites_status [of native_ok "0x2000" 0 null_families init_world]
  by (simp add: native_defs init_world_def)

subsection \<open>Decoding the API version\<close>

text \<open>
  C8. For a major and a minor version below \<open>2^10\<close> and a patch version below \<open>2^12\<close>,
  the three macros applied to the packed value give back the major, the minor and the
  patch version.
\<close>

theorem version_macros_decode_packed_version:
  assumes "major < 2 ^ 10" and "minor < 2 ^ 10" and "patch < 2 ^ 12"
  shows "VK_API_MAJOR_VERSION (packed_version major minor patch) = major \<and>
         VK_API_MINOR_VERSION (packed_version major minor patch) = minor \<and>
         VK_API_PATCH_VERSION (packed_version major minor patch) = patch"
proof -
  have m10: "(0x3FF :: uint32_t) = mask 10"
    by (simp add: mask_eq_exp_minus_1)
  have m12: "(0xFFF :: uint32_t) = mask 12"
    by (simp add: mask_eq_exp_minus_1)
  have "take_bit 10 major = major"
    using less_mask_eq [OF assms(1)] by (simp only: take_bit_eq_mask)
  then have a: "\<And>k. bit major k \<Longrightarrow> k < 10"
    by (metis bit_take_bit_iff)
  have "take_bit 10 minor = minor"
    using less_mask_eq [OF assms(2)] by (simp only: take_bit_eq_mask)
  then have b: "\<And>k. bit minor k \<Longrightarrow> k < 10"
    by (metis bit_take_bit_iff)
  have "take_bit 12 patch = patch"
    using less_mask_eq [OF assms(3)] by (simp only: take_bit_eq_mask)
  then have c: "\<And>k. bit patch k \<Longrightarrow> k < 12"
    by (metis bit_take_bit_iff)
  have "VK_API_MAJOR_VERSION (packed_version major minor patch) = major"
    unfolding VK_API_MAJOR_VERSION_def packed_version_def m10
    by (rule bit_word_eqI) (auto simp: bit_simps dest: a b c)
  moreover have "VK_API_MINOR_VERSION (packed_version major minor patch) = minor"
    unfolding VK_API_MINOR_VERSION_def packed_version_def m10
    by (rule bit_word_eqI) (auto simp: bit_simps dest: a b c)
  moreover have "VK_API_PATCH_VERSION (packed_version major minor patch) = patch"
    unfolding VK_API_PATCH_VERSION_def packed_version_def m12
    by (rule bit_word_eqI) (auto simp: bit_simps dest: a b c)
  ultimately show ?thesis by simp
qed

theorem version_macros_decode_packed_version_witness:
  "(1023 :: uint32_t) < 2 ^ 10 \<and> (0 :: uint32_t) < 2 ^ 10 \<and> (4095 :: uint32_t) < 2 ^ 12 \<and>
   VK_API_MAJOR_VERSION (packed_version 1023 0 4095) = 1023 \<and>
   VK_API_MINOR_VERSION (packed_version 1023 0 4095) = 0 \<and>
   VK_API_PATCH_VERSION (packed_version 1023 0 4095) = 4095 \<and>
   VK_API_MAJOR_VERSION (packed_version 0 1023 0) = 0 \<and>
   VK_API_MINOR_VERSION (packed_version 0 1023 0) = 1023 \<and>
   VK_API_PATCH_VERSION (packed_version 0 1023 0) = 0"
proof -
  have h1: "(1023 :: uint32_t) < 2 ^ 10" by simp
  have h0: "(0 :: uint32_t) < 2 ^ 10" by simp
  have h2: "(4095 :: uint32_t) < 2 ^ 12" by simp
  have h3: "(0 :: uint32_t) < 2 ^ 12" by simp
  show ?thesis
    using h1 h0 h2 version_macros_decode_packed_version [OF h1 h0 h2]
      version_macros_decode_packed_version [OF h0 h1 h3]
    by simp
qed

subsection \<open>The guards of the cleanup path\<close>

text \<open>
  C4. The claim: the cleanup path does not fail on a partially initialised state because
  every free and every destroy call in it is guarded by a null or zero check. The frees
  are guarded; the destroy calls are not. In tutorial 3, when the enumeration fails
  before any array is allocated, the cleanup calls \<open>vkDestroyDevice\<close> with the zero
  handle; on the state with nothing acquired the cleanup of tutorial 2 calls
  \<open>vkDestroyInstance\<close> with the zero handle.
\<close>

theorem cleanup_releases_zero_handles:
  "list_ex releases_null (trace (snd (main03 native_count_fails))) \<and>
   list_ex releases_null (trace (snd (cleanup02 0 null_devices init_world)))"
  by (simp add: run_defs native_defs Let_def)

text \<open>
  C4, as amended. On a partially initialised state (each of the instance handle, the
  array pointer and the device handle is zero or holds a live resource), the cleanup
  path of tutorials 2 and 3 does not fail, and releases what the state holds, provided
  that the native destroy calls accept the zero handle. The free is guarded by a null
  check, so it does not matter whether \<open>free\<close> accepts null. The destroy calls are not
  guarded: on a native layer that rejects the zero handle the cleanup fails when the
  instance handle is zero or, in tutorial 3, when the device handle is zero.
\<close>

theorem cleanup_of_partial_state:
  assumes "partially_initialised r vkInst vkPhysDev vkDev"
  shows "resource_run t (new_events w (snd (cleanup02 vkInst vkPhysDev w))) r =
           (if destroy_accepts_null t \<or> vkInst \<noteq> 0
            then Some \<lparr>arrays = without (base vkPhysDev) (arrays r),
                       devices = devices r,
                       instances = without vkInst (instances r)\<rparr>
            else None) \<and>
         resource_run t (new_events w (snd (cleanup03 vkInst vkPhysDev vkDev w))) r =
           (if destroy_accepts_null t \<or> vkDev \<noteq> 0 \<and> vkInst \<noteq> 0
            then Some \<lparr>arrays = without (base vkPhysDev) (arrays r),
                       devices = without vkDev (devices r),
                       instances = without vkInst (instances r)\<rparr>
            else None)"
  using assms
  by (auto simp: cleanup02_eq cleanup03_eq new_events_def partially_initialised_def
      release_def without_def)

theorem cleanup_of_partial_state_witness:
  "partially_initialised no_resources 0 null_devices 0 \<and>
   resource_run \<lparr>free_accepts_null = False, destroy_accepts_null = True\<rparr>
     (new_events init_world (snd (cleanup03 0 null_devices 0 init_world))) no_resources =
     Some no_resources \<and>
   resource_run \<lparr>free_accepts_null = True, destroy_accepts_null = False\<rparr>
     (new_events init_world (snd (cleanup03 0 null_devices 0 init_world))) no_resources = None \<and>
   partially_initialised (no_resources\<lparr>instances := [0x1000]\<rparr>) 0x1000 null_devices 0 \<and>
   resource_run \<lparr>free_accepts_null = False, destroy_accepts_null = True\<rparr>
     (new_events init_world (snd (cleanup03 0x1000 null_devices 0 init_world)))
     (no_resources\<lparr>instances := [0x1000]\<rparr>) = Some no_resources \<and>
   resource_run \<lparr>free_accepts_null = False, destroy_accepts_null = False\<rparr>
     (new_events init_world (snd (cleanup02 0x1000 null_devices init_world)))
     (no_resources\<lparr>instances := [0x1000]\<rparr>) = Some no_resources \<and>
   resource_run \<lparr>free_accepts_null = False, destroy_accepts_null = False\<rparr>
     (new_events init_world (snd (cleanup03 0x1000 null_devices 0 init_world)))
     (no_resources\<lparr>instances := [0x1000]\<rparr>) = None"
proof -
  have h0: "partially_initialised no_resources 0 null_devices 0"
    by (simp add: partially_initialised_def null_devices_def)
  have h1: "partially_initialised (no_resources\<lparr>instances := [0x1000]\<rparr>) 0x1000 null_devices 0"
    by (simp add: partially_initialised_def null_devices_def)
  show ?thesis
    using h0 h1
      cleanup_of_partial_state [OF h0, of "\<lparr>free_accepts_null = False, destroy_accepts_null = True\<rparr>" init_world]
      cleanup_of_partial_state [OF h0, of "\<lparr>free_accepts_null = True, destroy_accepts_null = False\<rparr>" init_world]
      cleanup_of_partial_state [OF h1, of "\<lparr>free_accepts_null = False, destroy_accepts_null = True\<rparr>" init_world]
      cleanup_of_partial_state [OF h1, of "\<lparr>free_accepts_null = False, destroy_accepts_null = False\<rparr>" init_world]
    by (simp add: without_def null_devices_def no_resources_def)
qed

subsection \<open>The order of the teardown\<close>




subsection \<open>Layers and extensions\<close>

text \<open>
  C9. In every run of each of the four tutorials, every call that creates an instance or
  a logical device passes the count 0 and a null array for the layers and for the
  extensions. Every run calls \<open>vkCreateInstance\<close>, with the descriptor that the source
  builds.
\<close>

theorem no_layers_or_extensions_enabled:
  "list_all no_layers_or_extensions (trace (snd (main00 env))) \<and>
   list_all no_layers_or_extensions (trace (snd (main01 env))) \<and>
   list_all no_layers_or_extensions (trace (snd (main02 env))) \<and>
   list_all no_layers_or_extensions (trace (snd (main03 env))) \<and>
   VkCreateInstance (instance_descriptor env ''vulkan-tut00'') \<in> set (trace (snd (main00 env))) \<and>
   VkCreateInstance (instance_descriptor env ''vulkan-tut01'') \<in> set (trace (snd (main01 env))) \<and>
   VkCreateInstance (instance_descriptor env ''vulkan-tut02'') \<in> set (trace (snd (main02 env))) \<and>
   VkCreateInstance (instance_descriptor env ''vulkan-tut03'') \<in> set (trace (snd (main03 env)))"
proof -
  have d: "enables_nothing (instance_descriptor env n)" for n
    by (rule instance_descriptor_enables_nothing)
  have m0: "list_all no_layers_or_extensions (trace (snd (main00 env))) \<and>
      VkCreateInstance (instance_descriptor env ''vulkan-tut00'') \<in> set (trace (snd (main00 env)))"
    by (simp add: main00_def vkCreateInstance_def emit_def printf_def init_world_def Let_def d)
  have m1: "list_all no_layers_or_extensions (trace (snd (main01 env))) \<and>
      VkCreateInstance (instance_descriptor env ''vulkan-tut01'') \<in> set (trace (snd (main01 env)))"
    using main01_trace [of env] d by auto
  obtain evs2 where s2: "list_all inner_event evs2"
    and t2: "trace (snd (main02 env)) = VkCreateInstance (instance_descriptor env ''vulkan-tut02'') # evs2
       \<or> (\<exists>p. trace (snd (main02 env)) =
              VkCreateInstance (instance_descriptor env ''vulkan-tut02'') # evs2 @
              (if p = 0 then [] else [Free p]) @
              [VkDestroyInstance (snd (vkCreateInstance_ret env)), Printf '' Cleanup done.\<newline>'' []])"
    using main02_trace [of env] by blast
  have n2: "list_all no_layers_or_extensions evs2"
    using s2 by (simp add: list_all_inner_setup list_all_setup_no_layers)
  have m2: "list_all no_layers_or_extensions (trace (snd (main02 env))) \<and>
      VkCreateInstance (instance_descriptor env ''vulkan-tut02'') \<in> set (trace (snd (main02 env)))"
    using t2 n2 d by auto
  obtain evs3 where s3: "list_all setup_event evs3"
    and t3: "trace (snd (main03 env)) = VkCreateInstance (instance_descriptor env ''vulkan-tut03'') # evs3
       \<or> (\<exists>p d. trace (snd (main03 env)) =
              VkCreateInstance (instance_descriptor env ''vulkan-tut03'') # evs3 @
              [VkDestroyDevice d] @ (if p = 0 then [] else [Free p]) @
              [VkDestroyInstance (snd (vkCreateInstance_ret env)), Printf '' Cleanup done.\<newline>'' []])"
    using main03_trace [of env] by blast
  have n3: "list_all no_layers_or_extensions evs3"
    using s3 by (simp add: list_all_setup_no_layers)
  have m3: "list_all no_layers_or_extensions (trace (snd (main03 env))) \<and>
      VkCreateInstance (instance_descriptor env ''vulkan-tut03'') \<in> set (trace (snd (main03 env)))"
    using t3 n3 d by auto
  from m0 m1 m2 m3 show ?thesis
    by simp
qed

theorem no_layers_or_extensions_enabled_witness:
  "list_all no_layers_or_extensions (trace (snd (main03 native_ok))) \<and>
   VkCreateDevice 0x2000 device_descriptor \<in> set (trace (snd (main03 native_ok))) \<and>
   enabledLayerCount device_descriptor = 0 \<and> ppEnabledLayerNames device_descriptor = 0 \<and>
   enabledExtensionCount device_descriptor = 0 \<and> ppEnabledExtensionNames device_descriptor = 0"
proof -
  have "VkCreateDevice 0x2000 device_descriptor \<in> set (trace (snd (main03 native_ok)))"
    by (simp add: run_defs native_defs Let_def)
  moreover have "list_all no_layers_or_extensions (trace (snd (main03 native_ok)))"
    using no_layers_or_extensions_enabled [of native_ok] by simp
  ultimately show ?thesis
    by (auto simp: list_all_iff enables_nothing_def)
qed

subsection \<open>A device without queue families\<close>

text \<open>
  C10. When the device reports no queue family, \<open>getQueueFamilyProperites\<close> still calls
  \<open>malloc\<close>, with the size 0. If that call returns null, the function prints the
  allocation failure and returns \<open>VK_ERROR_OUT_OF_HOST_MEMORY\<close>; if not, it queries
  again and returns \<open>VK_SUCCESS\<close> with the count 0. No other status comes back.
\<close>

theorem getQueueFamilyProperites_zero_families:
  assumes "queueFamilyCount env vkPhysDev = 0"
  shows "trace (snd (snd (snd (getQueueFamilyProperites env vkPhysDev i_Count vkQuFamProps w)))) =
           trace w @
           [VkGetPhysicalDeviceQueueFamilyProperties vkPhysDev i_Count 0,
            Malloc 0 (malloc_ret env (mallocs w) 0)] @
           (if malloc_ret env (mallocs w) 0 = 0
            then [Printf ''Couldn't allocate memory for the physical device array: %d\<newline>'' [Errno]]
            else [VkGetPhysicalDeviceQueueFamilyProperties vkPhysDev 0 (malloc_ret env (mallocs w) 0)]) \<and>
         (malloc_ret env (mallocs w) 0 = 0 \<longrightarrow>
            fst (getQueueFamilyProperites env vkPhysDev i_Count vkQuFamProps w) =
              VK_ERROR_OUT_OF_HOST_MEMORY) \<and>
         (malloc_ret env (mallocs w) 0 \<noteq> 0 \<longrightarrow>
            fst (getQueueFamilyProperites env vkPhysDev i_Count vkQuFamProps w) = VK_SUCCESS \<and>
            fst (snd (getQueueFamilyProperites env vkPhysDev i_Count vkQuFamProps w)) = 0)"
  using assms by (simp add: run_defs Let_def)

theorem getQueueFamilyProperites_zero_families_witness:
  "queueFamilyCount native_no_families_null 0x2000 = 0 \<and>
   malloc_ret native_no_families_null (mallocs init_world) 0 = 0 \<and>
   fst (getQueueFamilyProperites native_no_families_null 0x2000 0 null_families init_world) =
     VK_ERROR_OUT_OF_HOST_MEMORY \<and>
   queueFamilyCount native_no_families 0x2000 = 0 \<and>
   malloc_ret native_no_families (mallocs init_world) 0 \<noteq> 0 \<and>
   fst (getQueueFamilyProperites native_no_families 0x2000 0 null_families init_world) = VK_SUCCESS"
proof -
  have h1: "queueFamilyCount native_no_families_null 0x2000 = 0"
    by (simp add: native_defs)
  have h2: "queueFamilyCount native_no_families 0x2000 = 0"
    by (simp add: native_defs)
  have m1: "malloc_ret native_no_families_null (mallocs init_world) 0 = 0"
    by (simp add: native_defs init_world_def)
  have m2: "malloc_ret native_no_families (mallocs init_world) 0 \<noteq> 0"
    by (simp add: native_defs init_world_def)
  show ?thesis
    using h1 h2 m1 m2
      getQueueFamilyProperites_zero_families
        [OF h1, where w = init_world and i_Count = 0 and vkQuFamProps = null_families]
      getQueueFamilyProperites_zero_families
        [OF h2, where w = init_world and i_Count = 0 and vkQuFamProps = null_families]
    by simp
qed

end
